theory Spec2Isabelle
  imports Complex_Main "HOL-Library.AList" "HOL-Library.List_Lexorder"
begin

section \<open>JavaScript values\<close>

text \<open>
  A JavaScript string is a sequence of UTF-16 code units; a code unit is modelled by its
  number. \<open>js\<close> turns an ASCII literal into such a string.
\<close>

type_synonym jsstring = "nat list"

definition js :: "string \<Rightarrow> jsstring" where
  "js s = map of_char s"

text \<open>The values \<open>JSON.parse\<close> can return.\<close>

datatype jsval =
    JNull
  | JBool bool
  | JNum real
  | JStr jsstring
  | JArr "jsval list"
  | JObj "(jsstring \<times> jsval) list"

text \<open>
  The code units matched by \<open>\s\<close> in a regular expression, which are also the ones removed
  by \<open>String.prototype.trim\<close> (white space and line terminators).
\<close>

definition is_space :: "nat \<Rightarrow> bool" where
  "is_space c \<longleftrightarrow>
     c \<in> {9, 10, 11, 12, 13, 32, 160, 5760, 8232, 8233, 8239, 8287, 12288, 65279}
     \<or> (8192 \<le> c \<and> c \<le> 8202)"

definition trim :: "jsstring \<Rightarrow> jsstring" where
  "trim s = rev (dropWhile is_space (rev (dropWhile is_space s)))"

text \<open>\<open>s.split(/[...]/)\<close> for a class \<open>p\<close> of single code units.\<close>

fun split :: "(nat \<Rightarrow> bool) \<Rightarrow> jsstring \<Rightarrow> jsstring list" where
  "split p [] = [[]]"
| "split p (c # cs) =
     (if p c then [] # split p cs
      else (case split p cs of [] \<Rightarrow> [[c]] | w # ws \<Rightarrow> (c # w) # ws))"

text \<open>Decimal digits of an array index, as \<open>Object.entries\<close> names the entries of an array.\<close>

function dec :: "nat \<Rightarrow> jsstring" where
  "dec n = (if n < 10 then [48 + n] else dec (n div 10) @ [48 + n mod 10])"
  by pat_completeness auto
termination
  by (relation "measure id") auto

section \<open>The connection grammar of graph-parser.ts\<close>

text \<open>
  The regular expression of \<open>parseGraphData\<close> is
  \<^verbatim>\<open>/([^-=>\s]+)\s*(?:->|=>|EM DASH|EN DASH|-)\s*([^-=>\s[]+)(?:\[([^\]]+)\])?/\<close>.
  It is run by a backtracking matcher: a greedy quantifier first tries to take one more code
  unit and stops where it is only when the rest of the pattern fails after that,
  alternatives are tried from left to right, and the match starts at the leftmost position
  where one exists. \<open>greedy p least taken s cont\<close> is the quantifier over the class \<open>p\<close>
  with at least \<open>least\<close> repetitions, \<open>taken\<close> the code units consumed so far and
  \<open>cont\<close> the rest of the pattern.
\<close>

fun greedy ::
  "(nat \<Rightarrow> bool) \<Rightarrow> nat \<Rightarrow> jsstring \<Rightarrow> jsstring \<Rightarrow>
     (jsstring \<Rightarrow> jsstring \<Rightarrow> 'a option) \<Rightarrow> 'a option" where
  "greedy p least taken [] cont = (if least \<le> length taken then cont taken [] else None)"
| "greedy p least taken (c # cs) cont =
     (case (if p c then greedy p least (taken @ [c]) cs cont else None) of
        Some res \<Rightarrow> Some res
      | None \<Rightarrow> if least \<le> length taken then cont taken (c # cs) else None)"

fun alternatives :: "jsstring list \<Rightarrow> jsstring \<Rightarrow> (jsstring \<Rightarrow> 'a option) \<Rightarrow> 'a option" where
  "alternatives [] s cont = None"
| "alternatives (lit # lits) s cont =
     (case (if take (length lit) s = lit then cont (drop (length lit) s) else None) of
        Some res \<Rightarrow> Some res
      | None \<Rightarrow> alternatives lits s cont)"

definition source_class :: "nat \<Rightarrow> bool" where
  "source_class c \<longleftrightarrow> c \<notin> set (js ''-=>'') \<and> \<not> is_space c"

definition target_class :: "nat \<Rightarrow> bool" where
  "target_class c \<longleftrightarrow> c \<notin> set (js ''-=>'') \<and> \<not> is_space c \<and> c \<notin> set (js ''['')"

definition arrows :: "jsstring list" where
  "arrows = [js ''->'', js ''=>'', [8212], [8211], js ''-'']"

definition color_group ::
  "jsstring \<Rightarrow> (jsstring option \<Rightarrow> jsstring \<Rightarrow> 'a option) \<Rightarrow> 'a option" where
  "color_group s cont =
     (case alternatives [js ''[''] s
             (\<lambda>r. greedy (\<lambda>c. c \<notin> set (js '']'')) 1 [] r
                (\<lambda>col r'. alternatives [js '']''] r' (\<lambda>r''. cont (Some col) r''))) of
        Some res \<Rightarrow> Some res
      | None \<Rightarrow> cont None s)"

definition match_here :: "jsstring \<Rightarrow> (jsstring \<times> jsstring \<times> jsstring option) option" where
  "match_here s =
     greedy source_class 1 [] s (\<lambda>sourceId r1.
       greedy is_space 0 [] r1 (\<lambda>_ r2.
         alternatives arrows r2 (\<lambda>r3.
           greedy is_space 0 [] r3 (\<lambda>_ r4.
             greedy target_class 1 [] r4 (\<lambda>targetId r5.
               color_group r5 (\<lambda>color _. Some (sourceId, targetId, color)))))))"

text \<open>\<open>connection.match(re)\<close>: the captures of the leftmost match, or \<open>None\<close> for \<open>null\<close>.\<close>

fun regex_match :: "jsstring \<Rightarrow> (jsstring \<times> jsstring \<times> jsstring option) option" where
  "regex_match [] = match_here []"
| "regex_match (c # cs) =
     (case match_here (c # cs) of Some res \<Rightarrow> Some res | None \<Rightarrow> regex_match cs)"

section \<open>parseGraphData (src/lib/graph-parser.ts)\<close>

record Node =
  node_id :: jsstring
  node_name :: jsval
  node_properties :: "jsval option"

record Link =
  link_source :: jsstring
  link_target :: jsstring
  link_color :: "jsstring option"

record GraphData =
  gd_nodes :: "Node list"
  gd_links :: "Link list"

text \<open>
  \<open>nodes\<close> is a JavaScript \<open>Map\<close>: an association list in insertion order, in which
  \<open>set\<close> on a key that is present keeps its place (\<open>AList.update\<close>).
\<close>

type_synonym node_map = "(jsstring \<times> Node) list"

definition has :: "node_map \<Rightarrow> jsstring \<Rightarrow> bool" where
  "has nodes k \<longleftrightarrow> map_of nodes k \<noteq> None"

text \<open>
  \<open>connectionsText.split(/[,;\n]/).map((conn) => conn.trim()).filter(Boolean)\<close>
\<close>

definition connections :: "jsstring \<Rightarrow> jsstring list" where
  "connections connectionsText =
     filter (\<lambda>conn. conn \<noteq> [])
       (map trim (split (\<lambda>c. c \<in> set (js '',;'') \<or> c = 10) connectionsText))"

text \<open>
  The body of the loop over \<open>connections\<close>. The state is the node map, the links and the
  lines written by \<open>console.warn\<close>.
\<close>

definition add_connection ::
  "node_map \<times> Link list \<times> jsstring list \<Rightarrow> jsstring \<Rightarrow> node_map \<times> Link list \<times> jsstring list" where
  "add_connection st connection =
     (case st of (nodes, links, warnings) \<Rightarrow>
        (case regex_match connection of
           Some (sourceId, targetId, color) \<Rightarrow>
             let nodes1 = (if \<not> has nodes sourceId
                           then AList.update sourceId
                                  \<lparr>node_id = sourceId, node_name = JStr sourceId,
                                   node_properties = None\<rparr> nodes
                           else nodes);
                 nodes2 = (if \<not> has nodes1 targetId
                           then AList.update targetId
                                  \<lparr>node_id = targetId, node_name = JStr targetId,
                                   node_properties = None\<rparr> nodes1
                           else nodes1)
             in (nodes2,
                 links @ [\<lparr>link_source = sourceId, link_target = targetId, link_color = color\<rparr>],
                 warnings)
         | None \<Rightarrow> (nodes, links, warnings @ [connection])))"

definition parse_connections :: "jsstring \<Rightarrow> node_map \<times> Link list \<times> jsstring list" where
  "parse_connections connectionsText =
     (if trim connectionsText \<noteq> []
      then foldl add_connection ([], [], []) (connections connectionsText)
      else ([], [], []))"

text \<open>
  \<open>Object.entries(properties)\<close>. The pairs of a \<open>JObj\<close> are taken to be in the object's own
  property order. An array or a string has one entry per index; a number or a boolean has
  none; \<open>null\<close> raises a TypeError (\<open>None\<close>).
\<close>

fun entries :: "jsval \<Rightarrow> (jsstring \<times> jsval) list option" where
  "entries JNull = None"
| "entries (JBool b) = Some []"
| "entries (JNum r) = Some []"
| "entries (JStr s) = Some (zip (map dec [0 ..< length s]) (map (\<lambda>c. JStr [c]) s))"
| "entries (JArr vs) = Some (zip (map dec [0 ..< length vs]) vs)"
| "entries (JObj kvs) = Some kvs"

text \<open>
  \<open>nodeProps && typeof nodeProps === "object" && "name" in nodeProps\<close>, and then
  \<open>nodeProps.name\<close>.
\<close>

fun name_in :: "jsval \<Rightarrow> jsval option" where
  "name_in (JObj kvs) = map_of kvs (js ''name'')"
| "name_in v = None"

definition add_properties :: "node_map \<Rightarrow> jsstring \<times> jsval \<Rightarrow> node_map" where
  "add_properties nodes entry =
     (case entry of (nodeId, nodeProps) \<Rightarrow>
        (case map_of nodes nodeId of
           Some node \<Rightarrow>
             let node1 = node\<lparr>node_properties := Some nodeProps\<rparr>;
                 node2 = (case name_in nodeProps of
                            Some nm \<Rightarrow> node1\<lparr>node_name := nm\<rparr>
                          | None \<Rightarrow> node1)
             in AList.update nodeId node2 nodes
         | None \<Rightarrow>
             AList.update nodeId
               \<lparr>node_id = nodeId, node_name = JStr nodeId, node_properties = Some nodeProps\<rparr>
               nodes))"

text \<open>
  \<open>JSON.parse\<close> belongs to the runtime and is a parameter: it returns the parsed value or
  the message of the SyntaxError it raises. An exception is the message of the \<open>Error\<close>
  that \<open>parseGraphData\<close> throws. The message of the TypeError of \<open>Object.entries(null)\<close> is
  the one of V8.
\<close>

definition parse_failed :: "jsstring \<Rightarrow> jsstring" where
  "parse_failed message = js ''Failed to parse node properties: '' @ message"

definition parseGraphData ::
  "(jsstring \<Rightarrow> jsstring + jsval) \<Rightarrow> jsstring \<Rightarrow> jsstring \<Rightarrow> jsstring + GraphData" where
  "parseGraphData JSON_parse connectionsText propertiesText =
     (case parse_connections connectionsText of (nodes, links, warnings) \<Rightarrow>
        if trim propertiesText \<noteq> [] then
          (case JSON_parse propertiesText of
             Inl message \<Rightarrow> Inl (parse_failed message)
           | Inr properties \<Rightarrow>
               (case entries properties of
                  None \<Rightarrow> Inl (parse_failed (js ''Cannot convert undefined or null to object''))
                | Some es \<Rightarrow>
                    Inr \<lparr>gd_nodes = map snd (foldl add_properties nodes es),
                         gd_links = links\<rparr>))
        else Inr \<lparr>gd_nodes = map snd nodes, gd_links = links\<rparr>)"

text \<open>
  The invariant of both passes: the keys of the node map are distinct, every node is stored
  under its own id, and both ends of every link are keys.
\<close>

definition graph_inv :: "node_map \<Rightarrow> Link list \<Rightarrow> bool" where
  "graph_inv nodes links \<longleftrightarrow>
     distinct (map fst nodes)
     \<and> map (node_id \<circ> snd) nodes = map fst nodes
     \<and> (\<forall>l \<in> set links. link_source l \<in> fst ` set nodes \<and> link_target l \<in> fst ` set nodes)"

section \<open>GraphView (src/components/graph-view.tsx)\<close>

text \<open>
  A JavaScript number is a real number or \<open>NaN\<close>; rounding and the infinities are not
  modelled. \<open>NaN\<close> appears only as the result of \<open>Number(v)\<close> on a property value, which is a
  parameter \<open>to_number\<close> of the functions that call it. Positions, the zoom and the pan are
  real numbers; a position that is \<open>undefined\<close> is \<open>None\<close>.
\<close>

datatype number = Num real | NaN

record point =
  x_of :: real
  y_of :: real

record GNode =
  gn_id :: jsstring
  gn_label :: jsstring
  gn_x :: "real option"
  gn_y :: "real option"
  gn_color :: "jsstring option"
  gn_properties :: "(jsstring \<times> jsval) list option"

record Edge =
  edge_from :: jsstring
  edge_to :: jsstring
  edge_color :: "jsstring option"

text \<open>
  The state of the component: its \<open>useState\<close> cells, \<open>nodePositionsRef\<close>, the bounding
  rectangle of the container (\<open>None\<close> when \<open>containerRef.current\<close> is null), the props
  \<open>edges\<close>, \<open>onGraphUpdate\<close> and \<open>onZoomChange\<close> (\<open>True\<close> when the callback is given), and the
  calls made so far to the two callbacks.
\<close>

record GraphView =
  gv_nodes :: "GNode list"
  gv_zoom :: real
  gv_pan :: point
  gv_dragging :: "jsstring option"
  gv_dragOffset :: point
  gv_isPanning :: bool
  gv_panStart :: point
  gv_nodePositions :: "(jsstring \<times> point) list"
  gv_container :: "point option"
  gv_edges :: "Edge list"
  gv_onGraphUpdate :: bool
  gv_onZoomChange :: bool
  gv_graphUpdates :: "(GNode list \<times> Edge list) list"
  gv_zoomChanges :: "real list"

subsection \<open>handleWheel\<close>

definition zoomFactor :: "real \<Rightarrow> real" where
  "zoomFactor deltaY = (let delta = - deltaY in if delta > 0 then 1.1 else 0.9)"

definition handleWheel :: "real \<Rightarrow> real \<Rightarrow> real \<Rightarrow> GraphView \<Rightarrow> GraphView" where
  "handleWheel clientX clientY deltaY st =
     (case gv_container st of
        None \<Rightarrow> st
      | Some containerRect \<Rightarrow>
          let mouseX = clientX - x_of containerRect;
              mouseY = clientY - y_of containerRect;
              newZoom = max 0.1 (min 5 (gv_zoom st * zoomFactor deltaY));
              mouseGraphX = (mouseX - x_of (gv_pan st)) / gv_zoom st;
              mouseGraphY = (mouseY - y_of (gv_pan st)) / gv_zoom st;
              newPanX = mouseX - mouseGraphX * newZoom;
              newPanY = mouseY - mouseGraphY * newZoom
          in st\<lparr>gv_zoom := newZoom,
                gv_pan := \<lparr>x_of = newPanX, y_of = newPanY\<rparr>,
                gv_zoomChanges :=
                  (if gv_onZoomChange st then gv_zoomChanges st @ [newZoom]
                   else gv_zoomChanges st)\<rparr>)"

text \<open>The maps between screen and world coordinates that the handlers compute inline.\<close>

definition screen_to_world :: "GraphView \<Rightarrow> point \<Rightarrow> point" where
  "screen_to_world st p =
     \<lparr>x_of = (x_of p - x_of (gv_pan st)) / gv_zoom st,
      y_of = (y_of p - y_of (gv_pan st)) / gv_zoom st\<rparr>"

subsection \<open>The drag handlers\<close>

text \<open>\<open>if (dragging)\<close>: a string is truthy when it is not empty.\<close>

definition dragging_node :: "GraphView \<Rightarrow> jsstring option" where
  "dragging_node st =
     (case gv_dragging st of
        None \<Rightarrow> None
      | Some nodeId \<Rightarrow> if nodeId = [] then None else Some nodeId)"

definition handleNodeMouseDown :: "real \<Rightarrow> real \<Rightarrow> jsstring \<Rightarrow> GraphView \<Rightarrow> GraphView" where
  "handleNodeMouseDown clientX clientY nodeId st =
     (case gv_container st of
        None \<Rightarrow> st
      | Some containerRect \<Rightarrow>
          (case find (\<lambda>n. gn_id n = nodeId) (gv_nodes st) of
             None \<Rightarrow> st
           | Some node \<Rightarrow>
               (case (gn_x node, gn_y node) of
                  (Some node_x, Some node_y) \<Rightarrow>
                    let mouseX = clientX - x_of containerRect;
                        mouseY = clientY - y_of containerRect;
                        adjustedX = (mouseX - x_of (gv_pan st)) / gv_zoom st;
                        adjustedY = (mouseY - y_of (gv_pan st)) / gv_zoom st
                    in st\<lparr>gv_dragOffset :=
                            \<lparr>x_of = node_x - adjustedX, y_of = node_y - adjustedY\<rparr>,
                          gv_dragging := Some nodeId\<rparr>
                | _ \<Rightarrow> st)))"

definition handleSvgMouseDown :: "nat \<Rightarrow> real \<Rightarrow> real \<Rightarrow> GraphView \<Rightarrow> GraphView" where
  "handleSvgMouseDown button clientX clientY st =
     (if button \<noteq> 0 then st
      else (case gv_container st of
              None \<Rightarrow> st
            | Some containerRect \<Rightarrow>
                let mouseX = clientX - x_of containerRect;
                    mouseY = clientY - y_of containerRect
                in st\<lparr>gv_isPanning := True,
                      gv_panStart := \<lparr>x_of = mouseX, y_of = mouseY\<rparr>\<rparr>))"

definition handleMouseMove :: "real \<Rightarrow> real \<Rightarrow> GraphView \<Rightarrow> GraphView" where
  "handleMouseMove clientX clientY st =
     (case gv_container st of
        None \<Rightarrow> st
      | Some containerRect \<Rightarrow>
          let mouseX = clientX - x_of containerRect;
              mouseY = clientY - y_of containerRect
          in if gv_isPanning st then
               let dx = mouseX - x_of (gv_panStart st);
                   dy = mouseY - y_of (gv_panStart st)
               in st\<lparr>gv_pan := \<lparr>x_of = x_of (gv_pan st) + dx, y_of = y_of (gv_pan st) + dy\<rparr>,
                     gv_panStart := \<lparr>x_of = mouseX, y_of = mouseY\<rparr>\<rparr>
             else
               (case dragging_node st of
                  None \<Rightarrow> st
                | Some dragging \<Rightarrow>
                    let adjustedX = (mouseX - x_of (gv_pan st)) / gv_zoom st;
                        adjustedY = (mouseY - y_of (gv_pan st)) / gv_zoom st;
                        newX = adjustedX + x_of (gv_dragOffset st);
                        newY = adjustedY + y_of (gv_dragOffset st)
                    in st\<lparr>gv_nodePositions :=
                            AList.update dragging \<lparr>x_of = newX, y_of = newY\<rparr>
                              (gv_nodePositions st),
                          gv_nodes :=
                            map (\<lambda>node. if gn_id node = dragging
                                         then node\<lparr>gn_x := Some newX, gn_y := Some newY\<rparr>
                                         else node)
                              (gv_nodes st)\<rparr>))"

definition handleMouseUp :: "GraphView \<Rightarrow> GraphView" where
  "handleMouseUp st =
     (let updatedEdges =
            map (\<lambda>edge. edge\<lparr>edge_from := edge_from edge, edge_to := edge_to edge,
                               edge_color := edge_color edge\<rparr>) (gv_edges st);
          st1 = (if dragging_node st \<noteq> None \<and> gv_onGraphUpdate st
                 then st\<lparr>gv_graphUpdates := gv_graphUpdates st @ [(gv_nodes st, updatedEdges)]\<rparr>
                 else st)
      in st1\<lparr>gv_dragging := None, gv_isPanning := False\<rparr>)"

text \<open>A node-drag gesture: pointer-down on a node, pointer-moves, pointer-up.\<close>

definition moves :: "(real \<times> real) list \<Rightarrow> GraphView \<Rightarrow> GraphView" where
  "moves ms st = foldl (\<lambda>s m. handleMouseMove (fst m) (snd m) s) st ms"

definition drag_gesture ::
  "real \<times> real \<Rightarrow> jsstring \<Rightarrow> (real \<times> real) list \<Rightarrow> GraphView \<Rightarrow> GraphView" where
  "drag_gesture down nodeId ms st =
     handleMouseUp (moves ms (handleNodeMouseDown (fst down) (snd down) nodeId st))"

text \<open>The events that may come between pointer-down and pointer-up: moves and wheel turns.\<close>

datatype pointer_event = Move real real | Wheel real real real

fun handle_event :: "pointer_event \<Rightarrow> GraphView \<Rightarrow> GraphView" where
  "handle_event (Move clientX clientY) st = handleMouseMove clientX clientY st"
| "handle_event (Wheel clientX clientY deltaY) st = handleWheel clientX clientY deltaY st"

definition events :: "pointer_event list \<Rightarrow> GraphView \<Rightarrow> GraphView" where
  "events es st = foldl (\<lambda>s e. handle_event e s) st es"

text \<open>
  An example view: node \<open>A\<close> at \<open>(10, 10)\<close>, node \<open>B\<close> at \<open>(40, 50)\<close>, the edge from \<open>A\<close> to
  \<open>B\<close>, no zoom and no pan, a container at the origin of the page and an \<open>onGraphUpdate\<close> listener.
\<close>

definition example_view :: GraphView where
  "example_view =
     \<lparr>gv_nodes = [\<lparr>gn_id = js ''A'', gn_label = js ''A'', gn_x = Some 10, gn_y = Some 10,
                    gn_color = None, gn_properties = None\<rparr>,
                  \<lparr>gn_id = js ''B'', gn_label = js ''B'', gn_x = Some 40, gn_y = Some 50,
                    gn_color = None, gn_properties = None\<rparr>],
      gv_zoom = 1, gv_pan = \<lparr>x_of = 0, y_of = 0\<rparr>, gv_dragging = None,
      gv_dragOffset = \<lparr>x_of = 0, y_of = 0\<rparr>, gv_isPanning = False,
      gv_panStart = \<lparr>x_of = 0, y_of = 0\<rparr>, gv_nodePositions = [],
      gv_container = Some \<lparr>x_of = 0, y_of = 0\<rparr>,
      gv_edges = [\<lparr>edge_from = js ''A'', edge_to = js ''B'', edge_color = None\<rparr>],
      gv_onGraphUpdate = True, gv_onZoomChange = False, gv_graphUpdates = [],
      gv_zoomChanges = []\<rparr>"

subsection \<open>getNodeSize\<close>

datatype sizing = Uniform | Incoming | Outgoing | Provided | Property

text \<open>
  \<open>node.properties?.[key]\<close>; \<open>None\<close> is \<open>undefined\<close>. Only the own properties of an object
  are modelled, not the ones it inherits from \<open>Object.prototype\<close> (a key such as
  \<open>constructor\<close>).
\<close>

definition prop_lookup :: "GNode \<Rightarrow> jsstring \<Rightarrow> jsval option" where
  "prop_lookup node key =
     (case gn_properties node of None \<Rightarrow> None | Some props \<Rightarrow> map_of props key)"

text \<open>\<open>Math.max(4, Math.min(20, n))\<close>, which is \<open>NaN\<close> when \<open>n\<close> is.\<close>

fun clamp_size :: "number \<Rightarrow> number" where
  "clamp_size (Num r) = Num (max 4 (min 20 r))"
| "clamp_size NaN = NaN"

definition provided_size :: "(jsval \<Rightarrow> number) \<Rightarrow> sizing \<Rightarrow> GNode \<Rightarrow> number option" where
  "provided_size to_number nodeSizingMode node =
     (if nodeSizingMode = Provided
      then (case prop_lookup node (js ''size'') of
              Some sz \<Rightarrow> Some (clamp_size (to_number sz))
            | None \<Rightarrow> None)
      else None)"

text \<open>
  The numeric values of the chosen property across all nodes:
  \<open>nodes.map(...).filter((v) => v !== undefined && !isNaN(Number(v))).map(Number)\<close>.
\<close>

definition property_values :: "(jsval \<Rightarrow> number) \<Rightarrow> jsstring \<Rightarrow> GNode list \<Rightarrow> real list" where
  "property_values to_number nodeSizingProperty nodes =
     List.map_filter
       (\<lambda>n. case prop_lookup n nodeSizingProperty of
               None \<Rightarrow> None
             | Some v \<Rightarrow> (case to_number v of Num r \<Rightarrow> Some r | NaN \<Rightarrow> None))
       nodes"

definition property_size ::
  "(jsval \<Rightarrow> number) \<Rightarrow> sizing \<Rightarrow> jsstring option \<Rightarrow> GNode list \<Rightarrow> GNode \<Rightarrow> number option" where
  "property_size to_number nodeSizingMode nodeSizingProperty nodes node =
     (if nodeSizingMode = Property
      then (case nodeSizingProperty of
              None \<Rightarrow> None
            | Some prop \<Rightarrow>
                if prop = [] then None
                else (case prop_lookup node prop of
                        None \<Rightarrow> None
                      | Some own \<Rightarrow>
                          (case property_values to_number prop nodes of
                             [] \<Rightarrow> Some (Num 8)
                           | v # vs \<Rightarrow>
                               let min_v = fold min vs v; max_v = fold max vs v
                               in if min_v = max_v then Some (Num 8)
                                  else (case to_number own of
                                          Num value \<Rightarrow>
                                            Some (Num (4 + ((value - min_v) / (max_v - min_v)) * 16))
                                        | NaN \<Rightarrow> Some NaN))))
      else None)"

definition incomingCount :: "Edge list \<Rightarrow> GNode \<Rightarrow> nat" where
  "incomingCount edges node = length (filter (\<lambda>edge. edge_to edge = gn_id node) edges)"

definition outgoingCount :: "Edge list \<Rightarrow> GNode \<Rightarrow> nat" where
  "outgoingCount edges node = length (filter (\<lambda>edge. edge_from edge = gn_id node) edges)"

text \<open>\<open>Math.max(1, ...nodes.map((n) => edges.filter(...).length))\<close>\<close>

definition maxIncoming :: "GNode list \<Rightarrow> Edge list \<Rightarrow> nat" where
  "maxIncoming nodes edges = fold max (map (incomingCount edges) nodes) 1"

definition maxOutgoing :: "GNode list \<Rightarrow> Edge list \<Rightarrow> nat" where
  "maxOutgoing nodes edges = fold max (map (outgoingCount edges) nodes) 1"

definition degree_size :: "sizing \<Rightarrow> GNode list \<Rightarrow> Edge list \<Rightarrow> GNode \<Rightarrow> number" where
  "degree_size nodeSizingMode nodes edges node =
     (if nodeSizingMode = Incoming
      then Num (5 + (real (incomingCount edges node) / real (maxIncoming nodes edges)) * 15)
      else if nodeSizingMode = Outgoing
      then Num (5 + (real (outgoingCount edges node) / real (maxOutgoing nodes edges)) * 15)
      else Num 8)"

definition getNodeSize ::
  "(jsval \<Rightarrow> number) \<Rightarrow> sizing \<Rightarrow> jsstring option \<Rightarrow> GNode list \<Rightarrow> Edge list \<Rightarrow> GNode
     \<Rightarrow> number" where
  "getNodeSize to_number nodeSizingMode nodeSizingProperty nodes edges node =
     (if nodeSizingMode = Uniform then Num 8
      else (case provided_size to_number nodeSizingMode node of
              Some r \<Rightarrow> r
            | None \<Rightarrow>
                (case property_size to_number nodeSizingMode nodeSizingProperty nodes node of
                   Some r \<Rightarrow> r
                 | None \<Rightarrow> degree_size nodeSizingMode nodes edges node)))"

text \<open>
  \<open>getNodeSize\<close> of src/components/simple-drag-graph.tsx: the same code without the
  sizing by a property.
\<close>

definition getNodeSize_simple ::
  "(jsval \<Rightarrow> number) \<Rightarrow> sizing \<Rightarrow> GNode list \<Rightarrow> Edge list \<Rightarrow> GNode \<Rightarrow> number" where
  "getNodeSize_simple to_number nodeSizingMode nodes edges node =
     (if nodeSizingMode = Uniform then Num 8
      else (case provided_size to_number nodeSizingMode node of
              Some r \<Rightarrow> r
            | None \<Rightarrow> degree_size nodeSizingMode nodes edges node))"

text \<open>
  The degrees in the words of the specification: the number of edges into (out of) a node,
  and the largest such number over the nodes of the graph (0 when there is none).
\<close>

definition in_degree :: "Edge list \<Rightarrow> jsstring \<Rightarrow> nat" where
  "in_degree edges i = card {k. k < length edges \<and> edge_to (edges ! k) = i}"

definition out_degree :: "Edge list \<Rightarrow> jsstring \<Rightarrow> nat" where
  "out_degree edges i = card {k. k < length edges \<and> edge_from (edges ! k) = i}"

definition max_in_degree :: "GNode list \<Rightarrow> Edge list \<Rightarrow> nat" where
  "max_in_degree nodes edges = Max (insert 0 ((\<lambda>n. in_degree edges (gn_id n)) ` set nodes))"

definition max_out_degree :: "GNode list \<Rightarrow> Edge list \<Rightarrow> nat" where
  "max_out_degree nodes edges = Max (insert 0 ((\<lambda>n. out_degree edges (gn_id n)) ` set nodes))"

subsection \<open>Edge geometry\<close>
















subsection \<open>Group colors\<close>

text \<open>The values that are truthy in a condition.\<close>

fun truthy :: "jsval \<Rightarrow> bool" where
  "truthy JNull = False"
| "truthy (JBool b) = b"
| "truthy (JNum r) = (r \<noteq> 0)"
| "truthy (JStr s) = (s \<noteq> [])"
| "truthy (JArr vs) = True"
| "truthy (JObj kvs) = True"

text \<open>\<open>node.properties?.group || "default"\<close>\<close>

definition groupKey :: "GNode \<Rightarrow> jsval" where
  "groupKey node =
     (case prop_lookup node (js ''group'') of
        None \<Rightarrow> JStr (js ''default'')
      | Some grp \<Rightarrow> if truthy grp then grp else JStr (js ''default''))"

text \<open>
  \<open>Array.from(new Set(allGroups))\<close>: the first occurrence of every value, in the order of
  the nodes. Strings, numbers and booleans are compared as \<open>new Set\<close> compares them; two
  groups that are objects or arrays, which \<open>new Set\<close> tells apart by identity, are one group
  here when they have the same content.
\<close>

definition groups :: "GNode list \<Rightarrow> jsval list" where
  "groups nodes = rev (remdups (rev (map groupKey nodes)))"

definition defaultColors :: "jsstring list" where
  "defaultColors =
     [js ''#4285F4'', js ''#EA4335'', js ''#FBBC05'', js ''#34A853'', js ''#8E24AA'',
      js ''#00ACC1'', js ''#FB8C00'', js ''#607D8B'', js ''#E91E63'', js ''#9E9E9E'']"

text \<open>
  A group is used as a property key and compared by \<open>sort()\<close> as a string: itself when it is
  a string, and else its conversion, which is a parameter \<open>to_string\<close>.
\<close>

definition key_of :: "(jsval \<Rightarrow> jsstring) \<Rightarrow> jsval \<Rightarrow> jsstring" where
  "key_of to_string grp = (case grp of JStr s \<Rightarrow> s | _ \<Rightarrow> to_string grp)"

text \<open>
  \<open>customGroupColors[group] || defaultColors[index % defaultColors.length]\<close>, for the own
  properties of \<open>customGroupColors\<close>: a group without a custom color that is named like a
  member of \<open>Object.prototype\<close> (\<open>constructor\<close>, \<open>toString\<close>, ...) gets that member in the
  code, and the palette color here.
\<close>

definition color_entry :: "(jsstring \<times> jsstring) list \<Rightarrow> jsstring \<Rightarrow> nat \<Rightarrow> jsstring" where
  "color_entry customGroupColors grp index =
     (case map_of customGroupColors grp of
        None \<Rightarrow> defaultColors ! (index mod length defaultColors)
      | Some c \<Rightarrow> if c \<noteq> [] then c else defaultColors ! (index mod length defaultColors))"

text \<open>The \<open>forEach\<close> that fills \<open>colorMap\<close>, over the groups with their indices.\<close>

definition fill_colorMap ::
  "(jsval \<Rightarrow> jsstring) \<Rightarrow> (jsstring \<times> jsstring) list \<Rightarrow> (nat \<times> jsval) list \<Rightarrow>
     (jsstring \<rightharpoonup> jsstring) \<Rightarrow> (jsstring \<rightharpoonup> jsstring)" where
  "fill_colorMap to_string customGroupColors indexed colorMap =
     fold (\<lambda>(index, grp) m.
             m(key_of to_string grp
                 \<mapsto> color_entry customGroupColors (key_of to_string grp) index))
       indexed colorMap"

text \<open>
  \<open>colorScale\<close> of graph-view.tsx, which sorts the groups (\<open>[...groups].sort()\<close>, a stable
  sort by the code units of the strings).
\<close>

definition colorScale ::
  "(jsval \<Rightarrow> jsstring) \<Rightarrow> (jsstring \<times> jsstring) list \<Rightarrow> GNode list \<Rightarrow>
     (jsstring \<rightharpoonup> jsstring)" where
  "colorScale to_string customGroupColors nodes =
     (let sortedGroups = sort_key (key_of to_string) (groups nodes)
      in fill_colorMap to_string customGroupColors (enumerate 0 sortedGroups) Map.empty)"

text \<open>
  \<open>colorScale\<close> of src/components/simple-drag-graph.tsx, which runs \<open>groups.forEach\<close> on
  the groups as they are.
\<close>

definition colorScale_simple ::
  "(jsval \<Rightarrow> jsstring) \<Rightarrow> (jsstring \<times> jsstring) list \<Rightarrow> GNode list \<Rightarrow>
     (jsstring \<rightharpoonup> jsstring)" where
  "colorScale_simple to_string customGroupColors nodes =
     fill_colorMap to_string customGroupColors (enumerate 0 (groups nodes)) Map.empty"

text \<open>The group of a node as a string, for nodes whose group is a string.\<close>

definition group_name :: "GNode \<Rightarrow> jsstring" where
  "group_name node = (case groupKey node of JStr s \<Rightarrow> s | _ \<Rightarrow> [])"

definition string_groups :: "GNode list \<Rightarrow> bool" where
  "string_groups nodes \<longleftrightarrow> list_all (\<lambda>n. case groupKey n of JStr s \<Rightarrow> True | _ \<Rightarrow> False) nodes"

text \<open>Two nodes whose groups are met in the order \<open>b\<close>, \<open>a\<close>.\<close>

definition nodes_b_a :: "GNode list" where
  "nodes_b_a =
     [\<lparr>gn_id = js ''n1'', gn_label = js ''n1'', gn_x = None, gn_y = None, gn_color = None,
       gn_properties = Some [(js ''group'', JStr (js ''b''))]\<rparr>,
      \<lparr>gn_id = js ''n2'', gn_label = js ''n2'', gn_x = None, gn_y = None, gn_color = None,
       gn_properties = Some [(js ''group'', JStr (js ''a''))]\<rparr>]"

section \<open>D3Graph (src/unnamed/part_000)\<close>

text \<open>
  The component keeps the node objects in \<open>nodeObjectsRef\<close> and the group colors in a state
  cell; the nodes and the edges it is given are props, owned by the parent, which learns of
  a change through \<open>onGraphUpdate\<close>. The objects are JavaScript values as \<open>JSON.parse\<close>
  returns them, since \<open>importGraph\<close> stores what it has parsed without looking into it.

  The record holds the props \<open>nodes\<close>, \<open>edges\<close> and \<open>onGraphUpdate\<close> (\<open>True\<close> when the callback
  is given) of the current render, the \<open>edges\<close> and \<open>onGraphUpdate\<close> of the first render,
  whether \<open>svgRef.current\<close> is set, the width and height of the container (\<open>None\<close> when
  \<open>containerRef.current\<close> is null), \<open>nodeObjectsRef\<close>, \<open>customGroupColors\<close>, \<open>isDraggingRef\<close>
  and \<open>currentNodeRef\<close>, and the numbers that \<open>Math.random()\<close> returns with the count of
  those already drawn. The SVG elements, \<open>transformRef\<close> and the registration of the
  document listeners are not part of the record.
\<close>

record D3Graph =
  d3_nodes :: "jsval list"
  d3_edges :: "jsval list"
  d3_onGraphUpdate :: bool
  d3_first_edges :: "jsval list"
  d3_first_onGraphUpdate :: bool
  d3_svg :: bool
  d3_container :: "(real \<times> real) option"
  d3_nodeObjects :: "jsval list"
  d3_customGroupColors :: jsval
  d3_isDragging :: bool
  d3_currentNode :: "jsval option"
  d3_random :: "nat \<Rightarrow> real"
  d3_drawn :: nat

text \<open>
  What a handler does besides changing the state: \<open>alert\<close>, a call of \<open>onGraphUpdate\<close>, the
  rebuilding of the SVG by \<open>createGraph()\<close>, the download of a file, an exception that
  nothing catches.
\<close>

datatype effect =
    Alert jsstring
  | GraphUpdate "jsval list" "jsval list"
  | CreateGraph
  | Download jsstring
  | Uncaught jsstring

definition graphState_of :: "D3Graph \<Rightarrow> jsval" where
  "graphState_of st =
     JObj [(js ''nodes'', JArr (d3_nodeObjects st)),
           (js ''edges'', JArr (d3_edges st)),
           (js ''groupColors'', d3_customGroupColors st),
           (js ''version'', JStr (js ''1.0''))]"


text \<open>\<open>v.key\<close> for a value \<open>v\<close> that is not \<open>null\<close>; \<open>None\<close> is \<open>undefined\<close>.\<close>

fun member :: "jsval \<Rightarrow> jsstring \<Rightarrow> jsval option" where
  "member (JObj kvs) key = map_of kvs key"
| "member v key = None"

definition falsy :: "jsval option \<Rightarrow> bool" where
  "falsy v = (case v of None \<Rightarrow> True | Some w \<Rightarrow> \<not> truthy w)"

definition isArray :: "jsval option \<Rightarrow> bool" where
  "isArray v = (case v of Some (JArr vs) \<Rightarrow> True | _ \<Rightarrow> False)"

definition elements :: "jsval option \<Rightarrow> jsval list" where
  "elements v = (case v of Some (JArr vs) \<Rightarrow> vs | _ \<Rightarrow> [])"

definition import_failed :: "jsstring \<Rightarrow> jsstring" where
  "import_failed message = js ''Failed to import graph: '' @ message"

subsection \<open>createGraph\<close>

text \<open>\<open>{...node}\<close>: the own properties of a value that is not \<open>null\<close>.\<close>

definition spread :: "jsval \<Rightarrow> (jsstring \<times> jsval) list" where
  "spread node = (case entries node of None \<Rightarrow> [] | Some kvs \<Rightarrow> kvs)"

text \<open>
  \<open>nodes.map((node, index) => ...)\<close> of \<open>createGraph\<close>: a node with \<open>x\<close> and \<open>y\<close> gets them as
  \<open>fx\<close> and \<open>fy\<close>, any other node gets a random position in the container. The result is
  \<open>None\<close> when reading \<open>node.x\<close> raises a TypeError, which it does for \<open>null\<close>; the number is
  the count of random numbers drawn.
\<close>

fun prepare_nodes ::
  "(nat \<Rightarrow> real) \<Rightarrow> real \<Rightarrow> real \<Rightarrow> nat \<Rightarrow> jsval list \<Rightarrow> jsval list option \<times> nat" where
  "prepare_nodes rnd width height k [] = (Some [], k)"
| "prepare_nodes rnd width height k (JNull # rest) = (None, k)"
| "prepare_nodes rnd width height k (node # rest) =
     (case (member node (js ''x''), member node (js ''y'')) of
        (Some node_x, Some node_y) \<Rightarrow>
          (case prepare_nodes rnd width height k rest of
             (None, k') \<Rightarrow> (None, k')
           | (Some objs, k') \<Rightarrow>
               (Some (JObj (AList.update (js ''fy'') node_y
                              (AList.update (js ''fx'') node_x (spread node))) # objs), k'))
      | _ \<Rightarrow>
          let xPos = rnd k * width * 0.8 + width * 0.1;
              yPos = rnd (Suc k) * height * 0.8 + height * 0.1
          in (case prepare_nodes rnd width height (Suc (Suc k)) rest of
                (None, k') \<Rightarrow> (None, k')
              | (Some objs, k') \<Rightarrow>
                  (Some (JObj (AList.update (js ''fy'') (JNum yPos)
                                 (AList.update (js ''fx'') (JNum xPos)
                                    (AList.update (js ''y'') (JNum yPos)
                                       (AList.update (js ''x'') (JNum xPos) (spread node)))))
                         # objs), k')))"

datatype outcome = Skipped | Rendered | Threw jsstring

text \<open>
  \<open>createGraph\<close>, as far as the record goes: it returns at its first line when a ref is
  null or the \<open>nodes\<close> prop is empty, and otherwise stores the prepared nodes in
  \<open>nodeObjectsRef\<close> and rebuilds the SVG. Reading \<open>edge.from\<close> of an edge that is \<open>null\<close> raises
  a TypeError after the node objects are stored. The messages are those of V8.
\<close>

definition createGraph :: "D3Graph \<Rightarrow> D3Graph \<times> outcome" where
  "createGraph st =
     (case d3_container st of
        None \<Rightarrow> (st, Skipped)
      | Some (width, height) \<Rightarrow>
          if \<not> d3_svg st \<or> d3_nodes st = [] then (st, Skipped)
          else
            (case prepare_nodes (d3_random st) width height (d3_drawn st) (d3_nodes st) of
               (None, k) \<Rightarrow>
                 (st\<lparr>d3_drawn := k\<rparr>,
                  Threw (js ''Cannot read properties of null (reading 'x')''))
             | (Some nodeObjects, k) \<Rightarrow>
                 let st1 = st\<lparr>d3_drawn := k, d3_nodeObjects := nodeObjects\<rparr>
                 in if JNull \<in> set (d3_edges st)
                    then (st1, Threw (js ''Cannot read properties of null (reading 'from')''))
                    else (st1, Rendered)))"

subsection \<open>importGraph\<close>

text \<open>
  The \<open>onload\<close> handler of \<open>importGraph\<close>, run on the text of the chosen file. Reading a
  property of \<open>null\<close> raises a TypeError (its message is the one of V8), which the handler
  catches like the SyntaxError of \<open>JSON.parse\<close> and like an exception of \<open>createGraph()\<close>.
  The \<open>createGraph\<close> it calls is the one of the current render, with the current \<open>nodes\<close>
  prop.
\<close>

definition importGraph ::
  "(jsstring \<Rightarrow> jsstring + jsval) \<Rightarrow> jsstring \<Rightarrow> D3Graph \<Rightarrow> D3Graph \<times> effect list" where
  "importGraph JSON_parse content st =
     (case JSON_parse content of
        Inl message \<Rightarrow> (st, [Alert (import_failed message)])
      | Inr JNull \<Rightarrow>
          (st, [Alert (import_failed (js ''Cannot read properties of null (reading 'nodes')''))])
      | Inr graphState \<Rightarrow>
          if falsy (member graphState (js ''nodes''))
             \<or> \<not> isArray (member graphState (js ''nodes''))
             \<or> falsy (member graphState (js ''edges''))
             \<or> \<not> isArray (member graphState (js ''edges''))
          then (st, [Alert (js ''Invalid graph file format'')])
          else
            let st1 = (case member graphState (js ''groupColors'') of
                         None \<Rightarrow> st
                       | Some groupColors \<Rightarrow>
                           if truthy groupColors
                           then st\<lparr>d3_customGroupColors := groupColors\<rparr>
                           else st);
                st2 = st1\<lparr>d3_nodeObjects := elements (member graphState (js ''nodes''))\<rparr>;
                notified =
                  (if d3_onGraphUpdate st
                   then [GraphUpdate (elements (member graphState (js ''nodes'')))
                           (elements (member graphState (js ''edges'')))]
                   else [])
            in (case createGraph st2 of
                  (st3, Skipped) \<Rightarrow> (st3, notified)
                | (st3, Rendered) \<Rightarrow> (st3, notified @ [CreateGraph])
                | (st3, Threw message) \<Rightarrow> (st3, notified @ [Alert (import_failed message)])))"

subsection \<open>The renders and the drag handlers\<close>

text \<open>
  The first render with its effect, and a later render with new props: the effect runs
  \<open>createGraph\<close> again, since \<open>createGraph\<close> depends on the props. An exception of the effect
  is not recorded.
\<close>

definition mount ::
  "jsval list \<Rightarrow> jsval list \<Rightarrow> bool \<Rightarrow> real \<times> real \<Rightarrow> (nat \<Rightarrow> real) \<Rightarrow> D3Graph" where
  "mount nodes edges onGraphUpdate container_size rnd =
     fst (createGraph
            \<lparr>d3_nodes = nodes, d3_edges = edges, d3_onGraphUpdate = onGraphUpdate,
             d3_first_edges = edges, d3_first_onGraphUpdate = onGraphUpdate,
             d3_svg = True, d3_container = Some container_size,
             d3_nodeObjects = [], d3_customGroupColors = JObj [],
             d3_isDragging = False, d3_currentNode = None,
             d3_random = rnd, d3_drawn = 0\<rparr>)"

definition render :: "jsval list \<Rightarrow> jsval list \<Rightarrow> bool \<Rightarrow> D3Graph \<Rightarrow> D3Graph" where
  "render nodes edges onGraphUpdate st =
     fst (createGraph (st\<lparr>d3_nodes := nodes, d3_edges := edges,
                           d3_onGraphUpdate := onGraphUpdate\<rparr>))"

text \<open>
  \<open>handleNodeMouseDown\<close> is \<open>useCallback(..., [])\<close>: every render uses the function of the
  first render, and the \<open>handleMouseMove\<close> and \<open>handleMouseUp\<close> that it registers on the
  document are those of the first render too.
\<close>

definition handleNodeMouseDown_d3 :: "jsval \<Rightarrow> D3Graph \<Rightarrow> D3Graph" where
  "handleNodeMouseDown_d3 nodeId st = st\<lparr>d3_isDragging := True, d3_currentNode := Some nodeId\<rparr>"

text \<open>\<open>handleMouseMove\<close> writes attributes of SVG elements only.\<close>

definition handleMouseMove_d3 :: "real \<Rightarrow> real \<Rightarrow> D3Graph \<Rightarrow> D3Graph" where
  "handleMouseMove_d3 clientX clientY st = st"

text \<open>
  \<open>nodeObjectsRef.current.findIndex((n) => n.id === currentNodeRef.current)\<close>: \<open>None\<close> when
  reading \<open>n.id\<close> raises a TypeError, \<open>Some None\<close> for -1.
\<close>

fun findIndex_id :: "jsval \<Rightarrow> jsval list \<Rightarrow> nat \<Rightarrow> nat option option" where
  "findIndex_id v [] i = Some None"
| "findIndex_id v (JNull # ns) i = None"
| "findIndex_id v (n # ns) i =
     (if member n (js ''id'') = Some v then Some (Some i) else findIndex_id v ns (Suc i))"

text \<open>The four assignments \<open>.x = x\<close>, \<open>.y = y\<close>, \<open>.fx = x\<close>, \<open>.fy = y\<close> on a node object.\<close>

fun set_position :: "real \<Rightarrow> real \<Rightarrow> jsval \<Rightarrow> jsval" where
  "set_position x y (JObj kvs) =
     JObj (AList.update (js ''fy'') (JNum y)
             (AList.update (js ''fx'') (JNum x)
                (AList.update (js ''y'') (JNum y)
                   (AList.update (js ''x'') (JNum x) kvs))))"
| "set_position x y v = v"

text \<open>
  The \<open>handleMouseUp\<close> of the first render, the one that is registered. \<open>circle\<close> is what
  the handler reads in the document: the numbers that \<open>parseFloat\<close> gives for the \<open>cx\<close> and
  \<open>cy\<close> of the circle of the current node, \<open>None\<close> when there is no such circle. The
  notification goes to the \<open>onGraphUpdate\<close> of the first render with the \<open>edges\<close> of the
  first render, which the closure holds.
\<close>

definition handleMouseUp_d3 :: "(real \<times> real) option \<Rightarrow> D3Graph \<Rightarrow> D3Graph \<times> effect list" where
  "handleMouseUp_d3 circle st =
     (let reset = (\<lambda>s. s\<lparr>d3_isDragging := False, d3_currentNode := None\<rparr>)
      in if \<not> d3_isDragging st \<or> falsy (d3_currentNode st) \<or> \<not> d3_svg st then (st, [])
         else
           (case (circle, d3_currentNode st) of
              (Some (x, y), Some nodeId) \<Rightarrow>
                (case findIndex_id nodeId (d3_nodeObjects st) 0 of
                   None \<Rightarrow>
                     (st, [Uncaught (js ''Cannot read properties of null (reading 'id')'')])
                 | Some None \<Rightarrow> (reset st, [])
                 | Some (Some nodeIndex) \<Rightarrow>
                     let nodeObjects =
                           (d3_nodeObjects st)
                             [nodeIndex := set_position x y (d3_nodeObjects st ! nodeIndex)]
                     in (reset (st\<lparr>d3_nodeObjects := nodeObjects\<rparr>),
                         if d3_first_onGraphUpdate st
                         then [GraphUpdate nodeObjects (d3_first_edges st)]
                         else []))
            | _ \<Rightarrow> (reset st, [])))"

text \<open>
  An example: the component is mounted with the nodes \<open>A\<close> and \<open>B\<close> and the edge from \<open>A\<close>
  to \<open>B\<close>, and is then rendered with the node \<open>A\<close> alone and no edge, as after the deletion of
  \<open>B\<close>.
\<close>

definition node_A :: jsval where
  "node_A = JObj [(js ''id'', JStr (js ''A'')), (js ''label'', JStr (js ''A'')),
                 (js ''x'', JNum 10), (js ''y'', JNum 10)]"

definition node_B :: jsval where
  "node_B = JObj [(js ''id'', JStr (js ''B'')), (js ''label'', JStr (js ''B'')),
                 (js ''x'', JNum 40), (js ''y'', JNum 50)]"

definition edge_A_B :: jsval where
  "edge_A_B = JObj [(js ''from'', JStr (js ''A'')), (js ''to'', JStr (js ''B''))]"

definition mounted_A_B :: D3Graph where
  "mounted_A_B = mount [node_A, node_B] [edge_A_B] True (800, 600) (\<lambda>k. 0)"

definition after_delete_B :: D3Graph where
  "after_delete_B = render [node_A] [] True mounted_A_B"






section \<open>Properties of the connection and property passes\<close>








lemma update_ids:
  "node_id v = k \<Longrightarrow> map (node_id \<circ> snd) al = map fst al \<Longrightarrow>
     map (node_id \<circ> snd) (AList.update k v al) = map fst (AList.update k v al)"
  by (induction al) auto

lemma ids_mem:
  "map (node_id \<circ> snd) al = map fst al \<Longrightarrow> (k, n) \<in> set al \<Longrightarrow> node_id n = k"
  by (induction al) auto

lemma graph_inv_update:
  assumes "graph_inv nodes links" and "node_id v = k"
  shows "graph_inv (AList.update k v nodes) links"
  using assms
  by (auto simp: graph_inv_def distinct_update update_ids dom_update)

lemma graph_inv_add_connection:
  assumes "graph_inv nodes links"
    and "add_connection (nodes, links, warnings) c = (nodes', links', warnings')"
  shows "graph_inv nodes' links'"
proof (cases "regex_match c")
  case None
  with assms show ?thesis by (simp add: add_connection_def)
next
  case (Some m)
  obtain sourceId targetId color where m: "m = (sourceId, targetId, color)"
    by (cases m) auto
  define nodes1 where "nodes1 = (if \<not> has nodes sourceId
      then AList.update sourceId
        \<lparr>node_id = sourceId, node_name = JStr sourceId, node_properties = None\<rparr> nodes
      else nodes)"
  define nodes2 where "nodes2 = (if \<not> has nodes1 targetId
      then AList.update targetId
        \<lparr>node_id = targetId, node_name = JStr targetId, node_properties = None\<rparr> nodes1
      else nodes1)"
  have res: "nodes' = nodes2"
    "links' = links @ [\<lparr>link_source = sourceId, link_target = targetId, link_color = color\<rparr>]"
    using assms(2) Some m by (auto simp: add_connection_def nodes1_def nodes2_def Let_def)
  have i1: "graph_inv nodes1 links"
    using assms(1) by (simp add: nodes1_def graph_inv_update)
  have i2: "graph_inv nodes2 links"
    using i1 by (simp add: nodes2_def graph_inv_update)
  have s1: "sourceId \<in> fst ` set nodes1"
    by (auto simp: nodes1_def has_def dom_update map_of_eq_None_iff)
  have sub: "fst ` set nodes1 \<subseteq> fst ` set nodes2"
    by (auto simp: nodes2_def dom_update)
  have t2: "targetId \<in> fst ` set nodes2"
    by (auto simp: nodes2_def has_def dom_update map_of_eq_None_iff)
  show ?thesis
    using i2 s1 sub t2 by (auto simp: graph_inv_def res)
qed

lemma graph_inv_connections:
  "graph_inv nodes links \<Longrightarrow>
     foldl add_connection (nodes, links, warnings) cs = (nodes', links', warnings') \<Longrightarrow>
     graph_inv nodes' links'"
proof (induction cs arbitrary: nodes links warnings)
  case Nil
  then show ?case by simp
next
  case (Cons c cs)
  obtain n1 l1 w1 where st: "add_connection (nodes, links, warnings) c = (n1, l1, w1)"
    by (cases "add_connection (nodes, links, warnings) c") auto
  have "graph_inv n1 l1"
    using Cons.prems(1) st by (rule graph_inv_add_connection)
  then show ?case
    using Cons.IH [of n1 l1 w1] Cons.prems(2) st by simp
qed

lemma graph_inv_parse_connections:
  "parse_connections t = (nodes, links, warnings) \<Longrightarrow> graph_inv nodes links"
proof -
  assume a: "parse_connections t = (nodes, links, warnings)"
  have e: "graph_inv [] []" by (simp add: graph_inv_def)
  show ?thesis
  proof (cases "trim t \<noteq> []")
    case True
    with a have "foldl add_connection ([], [], []) (connections t) = (nodes, links, warnings)"
      by (simp add: parse_connections_def)
    with e show ?thesis by (rule graph_inv_connections)
  next
    case False
    with a e show ?thesis by (simp add: parse_connections_def)
  qed
qed

lemma graph_inv_add_properties:
  assumes "graph_inv nodes links"
  shows "graph_inv (add_properties nodes e) links"
proof -
  obtain nodeId nodeProps where e: "e = (nodeId, nodeProps)" by (cases e) auto
  show ?thesis
  proof (cases "map_of nodes nodeId")
    case None
    then show ?thesis
      using assms by (simp add: add_properties_def e graph_inv_update)
  next
    case (Some node)
    then have "(nodeId, node) \<in> set nodes" by (rule map_of_SomeD)
    then have "node_id node = nodeId"
      using assms ids_mem by (auto simp: graph_inv_def)
    then show ?thesis
      using assms Some
      by (auto simp: add_properties_def e Let_def intro!: graph_inv_update split: option.splits)
  qed
qed

lemma graph_inv_properties:
  "graph_inv nodes links \<Longrightarrow> graph_inv (foldl add_properties nodes es) links"
  by (induction es arbitrary: nodes) (simp_all add: graph_inv_add_properties)

lemma graph_inv_result:
  assumes "graph_inv nodes links"
  shows "distinct (map node_id (map snd nodes))
     \<and> (\<forall>l \<in> set links. link_source l \<in> node_id ` set (map snd nodes)
                         \<and> link_target l \<in> node_id ` set (map snd nodes))"
proof -
  have m: "map node_id (map snd nodes) = map fst nodes"
    using assms by (simp add: graph_inv_def)
  have "set (map node_id (map snd nodes)) = set (map fst nodes)"
    by (simp only: m)
  then have k: "node_id ` set (map snd nodes) = fst ` set nodes"
    by (simp only: set_map)
  have d: "distinct (map node_id (map snd nodes))"
    using assms by (simp only: m graph_inv_def)
  show ?thesis
    unfolding k using d assms by (simp add: graph_inv_def del: map_map)
qed

subsection \<open>Claim C4\<close>

text \<open>
  C4: whatever the connection text is, when the property text is not blank and
  \<open>JSON.parse\<close> rejects it, \<open>parseGraphData\<close> throws an \<open>Error\<close> whose message is
  \<open>Failed to parse node properties: \<close> followed by the message of the JSON error, and it
  returns no document, not even the one the connection pass has built.
\<close>

theorem malformed_properties_fatal:
  assumes "trim propertiesText \<noteq> []" and "JSON_parse propertiesText = Inl message"
  shows "parseGraphData JSON_parse connectionsText propertiesText
           = Inl (js ''Failed to parse node properties: '' @ message)
       \<and> (\<forall>g. parseGraphData JSON_parse connectionsText propertiesText \<noteq> Inr g)"
  using assms by (simp add: parseGraphData_def parse_failed_def split: prod.splits)


theorem malformed_properties_fatal_witness:
  "trim (js ''{bad'') \<noteq> []
   \<and> parseGraphData (\<lambda>_. Inl (js ''Unexpected token b'')) (js ''A->B'') (js ''{bad'')
       = Inl (js ''Failed to parse node properties: Unexpected token b'')"
  using malformed_properties_fatal
    [where propertiesText = "js ''{bad''" and JSON_parse = "\<lambda>_. Inl (js ''Unexpected token b'')"
       and message = "js ''Unexpected token b''" and connectionsText = "js ''A->B''"]
  by (simp add: trim_def js_def is_space_def)

subsection \<open>Claim C5\<close>











lemma dash_arrows:
  "regex_match (js ''A'' @ [8212] @ js ''B'') = Some (js ''A'', js ''B'', None)
   \<and> regex_match (js ''A '' @ [8211] @ js '' B[red]'') = Some (js ''A'', js ''B'', Some (js ''red''))"
  by (simp add: match_here_def color_group_def js_def source_class_def target_class_def
      is_space_def arrows_def)






subsection \<open>Claim C10\<close>

text \<open>
  C10: whenever \<open>parseGraphData\<close> returns a document, no two of its nodes have the same id
  and both ends of every link are ids of its nodes.
\<close>

theorem parse_well_formed:
  assumes "parseGraphData JSON_parse connectionsText propertiesText = Inr g"
  shows "distinct (map node_id (gd_nodes g))
     \<and> (\<forall>l \<in> set (gd_links g). link_source l \<in> node_id ` set (gd_nodes g)
                               \<and> link_target l \<in> node_id ` set (gd_nodes g))"
proof -
  obtain nodes links warnings where pc: "parse_connections connectionsText = (nodes, links, warnings)"
    by (cases "parse_connections connectionsText") auto
  then have inv: "graph_inv nodes links" by (rule graph_inv_parse_connections)
  show ?thesis
  proof (cases "trim propertiesText \<noteq> []")
    case False
    then have "g = \<lparr>gd_nodes = map snd nodes, gd_links = links\<rparr>"
      using assms pc by (simp add: parseGraphData_def)
    then show ?thesis using graph_inv_result [OF inv] by simp
  next
    case True
    then obtain properties es where "JSON_parse propertiesText = Inr properties"
      and "entries properties = Some es"
      and g: "g = \<lparr>gd_nodes = map snd (foldl add_properties nodes es), gd_links = links\<rparr>"
      using assms pc by (auto simp: parseGraphData_def split: sum.splits option.splits)
    have "graph_inv (foldl add_properties nodes es) links"
      using inv by (rule graph_inv_properties)
    then show ?thesis using graph_inv_result g by simp
  qed
qed


theorem parse_well_formed_witness:
  "parseGraphData (\<lambda>_. Inr (JObj [(js ''A'', JObj [(js ''name'', JStr (js ''Alpha''))]),
                                   (js ''Z'', JNull)]))
       (js ''A->B, B->A; A - C'') (js ''{...}'')
     = Inr \<lparr>gd_nodes =
              [\<lparr>node_id = js ''A'', node_name = JStr (js ''Alpha''),
                node_properties = Some (JObj [(js ''name'', JStr (js ''Alpha''))])\<rparr>,
               \<lparr>node_id = js ''B'', node_name = JStr (js ''B''), node_properties = None\<rparr>,
               \<lparr>node_id = js ''C'', node_name = JStr (js ''C''), node_properties = None\<rparr>,
               \<lparr>node_id = js ''Z'', node_name = JStr (js ''Z''), node_properties = Some JNull\<rparr>],
            gd_links =
              [\<lparr>link_source = js ''A'', link_target = js ''B'', link_color = None\<rparr>,
               \<lparr>link_source = js ''B'', link_target = js ''A'', link_color = None\<rparr>,
               \<lparr>link_source = js ''A'', link_target = js ''C'', link_color = None\<rparr>]\<rparr>
   \<and> distinct (map node_id
         [\<lparr>node_id = js ''A'', node_name = JStr (js ''Alpha''),
           node_properties = Some (JObj [(js ''name'', JStr (js ''Alpha''))])\<rparr>,
          \<lparr>node_id = js ''B'', node_name = JStr (js ''B''), node_properties = None\<rparr>,
          \<lparr>node_id = js ''C'', node_name = JStr (js ''C''), node_properties = None\<rparr>,
          \<lparr>node_id = js ''Z'', node_name = JStr (js ''Z''), node_properties = Some JNull\<rparr>])"
proof -
  have p: "parseGraphData (\<lambda>_. Inr (JObj [(js ''A'', JObj [(js ''name'', JStr (js ''Alpha''))]),
                                   (js ''Z'', JNull)]))
       (js ''A->B, B->A; A - C'') (js ''{...}'')
     = Inr \<lparr>gd_nodes =
              [\<lparr>node_id = js ''A'', node_name = JStr (js ''Alpha''),
                node_properties = Some (JObj [(js ''name'', JStr (js ''Alpha''))])\<rparr>,
               \<lparr>node_id = js ''B'', node_name = JStr (js ''B''), node_properties = None\<rparr>,
               \<lparr>node_id = js ''C'', node_name = JStr (js ''C''), node_properties = None\<rparr>,
               \<lparr>node_id = js ''Z'', node_name = JStr (js ''Z''), node_properties = Some JNull\<rparr>],
            gd_links =
              [\<lparr>link_source = js ''A'', link_target = js ''B'', link_color = None\<rparr>,
               \<lparr>link_source = js ''B'', link_target = js ''A'', link_color = None\<rparr>,
               \<lparr>link_source = js ''A'', link_target = js ''C'', link_color = None\<rparr>]\<rparr>"
    by (simp add: parseGraphData_def parse_connections_def connections_def trim_def
        add_connection_def add_properties_def has_def match_here_def color_group_def js_def
        source_class_def target_class_def is_space_def arrows_def)
  from parse_well_formed [OF p] p show ?thesis by simp
qed

section \<open>Properties of GraphView\<close>

subsection \<open>Claim C2\<close>

text \<open>
  C2: in a view whose scale \<open>k\<close> lies in \<open>[0.1, 5]\<close>, a wheel event at the screen point \<open>P\<close>
  (relative to the container) with factor \<open>f\<close> (1.1 or 0.9, by the direction of the wheel)
  sets the scale to \<open>k' = clamp(k * f, 0.1, 5)\<close>, which lies in \<open>[0.1, 5]\<close> again, and the pan
  to \<open>P - ((P - pan) / k) * k'\<close>, and the world point under \<open>P\<close> is the same before and
  after. Numbers are real numbers
  here, so the equality is exact.
\<close>

theorem zoom_at_point:
  assumes "0.1 \<le> gv_zoom st" and "gv_zoom st \<le> 5" and "gv_container st = Some rect"
  shows "let P = \<lparr>x_of = clientX - x_of rect, y_of = clientY - y_of rect\<rparr>;
             k = gv_zoom st;
             st' = handleWheel clientX clientY deltaY st;
             k' = gv_zoom st'
         in k' = max 0.1 (min 5 (k * zoomFactor deltaY))
          \<and> 0.1 \<le> k' \<and> k' \<le> 5
          \<and> x_of (gv_pan st') = x_of P - ((x_of P - x_of (gv_pan st)) / k) * k'
          \<and> y_of (gv_pan st') = y_of P - ((y_of P - y_of (gv_pan st)) / k) * k'
          \<and> screen_to_world st' P = screen_to_world st P"
proof -
  define k' where "k' = max 0.1 (min 5 (gv_zoom st * zoomFactor deltaY))"
  have lo: "(0.1::real) \<le> k'" unfolding k'_def by (rule max.cobounded1)
  have hi: "k' \<le> 5" unfolding k'_def by simp
  from lo have pos: "k' \<noteq> 0" by simp
  show ?thesis
    using assms(3) pos lo hi
    by (simp add: handleWheel_def screen_to_world_def Let_def k'_def [symmetric])
qed


theorem zoom_at_point_witness:
  "(0.1::real) \<le> gv_zoom example_view \<and> gv_zoom example_view \<le> 5
   \<and> gv_zoom (handleWheel 100 50 (- 1) example_view) = 1.1
   \<and> gv_pan (handleWheel 100 50 (- 1) example_view) = \<lparr>x_of = - 10, y_of = - 5\<rparr>
   \<and> screen_to_world (handleWheel 100 50 (- 1) example_view) \<lparr>x_of = 100, y_of = 50\<rparr>
       = \<lparr>x_of = 100, y_of = 50\<rparr>"
  using zoom_at_point
    [where st = example_view and rect = "\<lparr>x_of = 0, y_of = 0\<rparr>" and clientX = 100
       and clientY = 50 and deltaY = "- 1"]
  by (simp add: example_view_def Let_def zoomFactor_def screen_to_world_def)

subsection \<open>A node drag in GraphView\<close>

lemma updatedEdges_id:
  "map (\<lambda>edge. edge\<lparr>edge_from := edge_from edge, edge_to := edge_to edge,
                      edge_color := edge_color edge\<rparr>) es = es"
  by (induction es) simp_all

lemma moves_snoc: "moves (ms @ [m]) s = handleMouseMove (fst m) (snd m) (moves ms s)"
  by (simp add: moves_def)

lemma moves_dragging:
  assumes "gv_dragging s = Some nodeId" and "nodeId \<noteq> []" and "\<not> gv_isPanning s"
    and "gv_container s = Some rect"
  shows "gv_dragging (moves ms s) = Some nodeId
     \<and> \<not> gv_isPanning (moves ms s)
     \<and> gv_container (moves ms s) = Some rect
     \<and> gv_zoom (moves ms s) = gv_zoom s
     \<and> gv_pan (moves ms s) = gv_pan s
     \<and> gv_dragOffset (moves ms s) = gv_dragOffset s
     \<and> gv_edges (moves ms s) = gv_edges s
     \<and> gv_onGraphUpdate (moves ms s) = gv_onGraphUpdate s
     \<and> gv_graphUpdates (moves ms s) = gv_graphUpdates s
     \<and> gv_nodes (moves ms s) =
         (if ms = [] then gv_nodes s
          else map (\<lambda>node. if gn_id node = nodeId
                       then node\<lparr>gn_x := Some ((fst (last ms) - x_of rect - x_of (gv_pan s)) / gv_zoom s
                                               + x_of (gv_dragOffset s)),
                                  gn_y := Some ((snd (last ms) - y_of rect - y_of (gv_pan s)) / gv_zoom s
                                               + y_of (gv_dragOffset s))\<rparr>
                       else node)
                 (gv_nodes s))"
proof (induction ms rule: rev_induct)
  case Nil
  show ?case using assms by (simp add: moves_def)
next
  case (snoc m ms)
  let ?s = "moves ms s"
  have d: "dragging_node ?s = Some nodeId"
    using snoc assms(2) by (simp add: dragging_node_def)
  show ?case
    using snoc d
    by (simp add: moves_snoc handleMouseMove_def Let_def comp_def cong: if_cong)
qed


text \<open>
  In \<open>GraphView\<close> a drag is committed once, at pointer-up. Take an idle view with a
  container and an \<open>onGraphUpdate\<close> listener, and a node with a non-empty id and a position.
  After pointer-down on the node and any pointer-moves, no update has been notified.
  Pointer-up then ends the drag (the view is idle again) and notifies exactly one update; it
  carries the whole node list, in which the dragged node is at its final position (the
  world point of the last move plus the offset captured at pointer-down), and the whole
  edge list of the view.
\<close>

lemma drag_commit:
  assumes "gv_dragging st = None" and "\<not> gv_isPanning st"
    and "gv_container st = Some rect"
    and "find (\<lambda>n. gn_id n = nodeId) (gv_nodes st) = Some node"
    and "gn_x node = Some node_x" and "gn_y node = Some node_y"
    and "nodeId \<noteq> []"
    and "gv_onGraphUpdate st"
  shows "gv_graphUpdates (moves ms (handleNodeMouseDown downX downY nodeId st))
           = gv_graphUpdates st
     \<and> (let st' = drag_gesture (downX, downY) nodeId ms st;
             world = (\<lambda>p. screen_to_world st \<lparr>x_of = fst p - x_of rect, y_of = snd p - y_of rect\<rparr>);
             final = (\<lambda>p. \<lparr>x_of = x_of (world p) + (node_x - x_of (world (downX, downY))),
                            y_of = y_of (world p) + (node_y - y_of (world (downX, downY)))\<rparr>)
          in gv_dragging st' = None \<and> \<not> gv_isPanning st'
           \<and> gv_graphUpdates st' = gv_graphUpdates st @ [(gv_nodes st', gv_edges st)]
           \<and> gv_nodes st' =
               (if ms = [] then gv_nodes st
                else map (\<lambda>n. if gn_id n = nodeId
                              then n\<lparr>gn_x := Some (x_of (final (last ms))),
                                     gn_y := Some (y_of (final (last ms)))\<rparr>
                              else n)
                       (gv_nodes st)))"
proof -
  define s1 where "s1 = handleNodeMouseDown downX downY nodeId st"
  have s1: "s1 = st\<lparr>gv_dragOffset :=
                      \<lparr>x_of = node_x - (downX - x_of rect - x_of (gv_pan st)) / gv_zoom st,
                       y_of = node_y - (downY - y_of rect - y_of (gv_pan st)) / gv_zoom st\<rparr>,
                    gv_dragging := Some nodeId\<rparr>"
    using assms(3-6) by (simp add: s1_def handleNodeMouseDown_def)
  have pre: "gv_dragging s1 = Some nodeId" "\<not> gv_isPanning s1" "gv_container s1 = Some rect"
    using assms(2,3) by (simp_all add: s1)
  note inv = moves_dragging [OF pre(1) assms(7) pre(2) pre(3), of ms]
  have d: "dragging_node (moves ms s1) = Some nodeId"
    using inv assms(7) by (simp add: dragging_node_def)
  have upd: "gv_onGraphUpdate (moves ms s1)"
    using inv assms(8) by (simp add: s1)
  have first: "gv_graphUpdates (moves ms s1) = gv_graphUpdates st"
    using inv by (simp add: s1)
  have nodes: "gv_nodes (handleMouseUp (moves ms s1)) = gv_nodes (moves ms s1)"
    by (simp add: handleMouseUp_def Let_def)
  have up: "gv_graphUpdates (handleMouseUp (moves ms s1))
              = gv_graphUpdates st @ [(gv_nodes (moves ms s1), gv_edges st)]"
    using inv d upd by (simp add: handleMouseUp_def Let_def updatedEdges_id s1)
  have idle: "gv_dragging (handleMouseUp (moves ms s1)) = None"
    "\<not> gv_isPanning (handleMouseUp (moves ms s1))"
    by (simp_all add: handleMouseUp_def Let_def)
  have fin: "gv_nodes (moves ms s1) =
      (if ms = [] then gv_nodes st
       else map (\<lambda>n. if gn_id n = nodeId
                  then n\<lparr>gn_x := Some ((fst (last ms) - x_of rect - x_of (gv_pan st)) / gv_zoom st
                           + (node_x - (downX - x_of rect - x_of (gv_pan st)) / gv_zoom st)),
                         gn_y := Some ((snd (last ms) - y_of rect - y_of (gv_pan st)) / gv_zoom st
                           + (node_y - (downY - y_of rect - y_of (gv_pan st)) / gv_zoom st))\<rparr>
                  else n)
              (gv_nodes st))"
    using inv by (simp add: s1)
  show ?thesis
    unfolding drag_gesture_def s1_def [symmetric] Let_def fst_conv snd_conv
    using first up idle nodes fin by (simp add: screen_to_world_def)
qed


lemma drag_commit_example:
  "gv_graphUpdates (moves [(30, 30), (50, 50)] (handleNodeMouseDown 10 10 (js ''A'') example_view))
     = []
   \<and> gv_graphUpdates (drag_gesture (10, 10) (js ''A'') [(30, 30), (50, 50)] example_view)
     = [([\<lparr>gn_id = js ''A'', gn_label = js ''A'', gn_x = Some 50, gn_y = Some 50,
           gn_color = None, gn_properties = None\<rparr>,
          \<lparr>gn_id = js ''B'', gn_label = js ''B'', gn_x = Some 40, gn_y = Some 50,
           gn_color = None, gn_properties = None\<rparr>],
         [\<lparr>edge_from = js ''A'', edge_to = js ''B'', edge_color = None\<rparr>])]"
  using drag_commit
    [where st = example_view and nodeId = "js ''A''" and ms = "[(30, 30), (50, 50)]"
       and downX = 10 and downY = 10 and rect = "\<lparr>x_of = 0, y_of = 0\<rparr>"
       and node_x = 10 and node_y = 10
       and node = "\<lparr>gn_id = js ''A'', gn_label = js ''A'', gn_x = Some 10, gn_y = Some 10,
                     gn_color = None, gn_properties = None\<rparr>"]
  by (simp add: example_view_def js_def screen_to_world_def Let_def)

text \<open>
  The same with wheel turns among the moves: nothing is notified before pointer-up, and
  pointer-up notifies once, with the nodes as the events have left them and the edges.
\<close>

lemma events_snoc: "events (es @ [e]) s = handle_event e (events es s)"
  by (simp add: events_def)

lemma events_dragging:
  assumes "gv_dragging s = Some nodeId" and "nodeId \<noteq> []"
  shows "gv_dragging (events es s) = Some nodeId
     \<and> gv_edges (events es s) = gv_edges s
     \<and> gv_onGraphUpdate (events es s) = gv_onGraphUpdate s
     \<and> gv_graphUpdates (events es s) = gv_graphUpdates s"
proof (induction es rule: rev_induct)
  case Nil
  show ?case using assms by (simp add: events_def)
next
  case (snoc e es)
  show ?case
  proof (cases e)
    case (Move clientX clientY)
    show ?thesis
      using snoc
      by (simp add: events_snoc Move handleMouseMove_def Let_def
          split: option.splits)
  next
    case (Wheel clientX clientY deltaY)
    show ?thesis
      using snoc
      by (simp add: events_snoc Wheel handleWheel_def Let_def split: option.splits)
  qed
qed

lemma drag_commit_any_events:
  assumes "gv_container st = Some rect"
    and "find (\<lambda>n. gn_id n = nodeId) (gv_nodes st) = Some node"
    and "gn_x node = Some node_x" and "gn_y node = Some node_y"
    and "nodeId \<noteq> []"
    and "gv_onGraphUpdate st"
  shows "gv_graphUpdates (events es (handleNodeMouseDown downX downY nodeId st))
           = gv_graphUpdates st
     \<and> gv_graphUpdates (handleMouseUp (events es (handleNodeMouseDown downX downY nodeId st)))
           = gv_graphUpdates st
             @ [(gv_nodes (events es (handleNodeMouseDown downX downY nodeId st)), gv_edges st)]
     \<and> gv_nodes (handleMouseUp (events es (handleNodeMouseDown downX downY nodeId st)))
           = gv_nodes (events es (handleNodeMouseDown downX downY nodeId st))
     \<and> gv_dragging (handleMouseUp (events es (handleNodeMouseDown downX downY nodeId st))) = None"
proof -
  define s1 where "s1 = handleNodeMouseDown downX downY nodeId st"
  have s1: "gv_dragging s1 = Some nodeId" "gv_edges s1 = gv_edges st"
    "gv_onGraphUpdate s1" "gv_graphUpdates s1 = gv_graphUpdates st"
    using assms by (simp_all add: s1_def handleNodeMouseDown_def)
  note inv = events_dragging [OF s1(1) assms(5), of es]
  have d: "dragging_node (events es s1) = Some nodeId"
    using inv assms(5) by (simp add: dragging_node_def)
  show ?thesis
    unfolding s1_def [symmetric]
    using inv d s1 by (simp add: handleMouseUp_def Let_def updatedEdges_id)
qed

subsection \<open>Claim C8\<close>

lemma incomingCount_in_degree: "incomingCount edges node = in_degree edges (gn_id node)"
  by (simp add: incomingCount_def in_degree_def length_filter_conv_card)

lemma outgoingCount_out_degree: "outgoingCount edges node = out_degree edges (gn_id node)"
  by (simp add: outgoingCount_def out_degree_def length_filter_conv_card)

lemma fold_max_one: "fold max xs (1::nat) = max 1 (Max (insert 0 (set xs)))"
proof -
  have "fold max xs (1::nat) = Max (set (1 # xs))"
    by (simp only: Max.set_eq_fold)
  also have "\<dots> = max 1 (Max (insert 0 (set xs)))"
    by (cases "set xs = {}") (simp_all add: max.assoc [symmetric])
  finally show ?thesis .
qed

lemma maxIncoming_spec: "maxIncoming nodes edges = max 1 (max_in_degree nodes edges)"
proof -
  have "incomingCount edges = (\<lambda>n. in_degree edges (gn_id n))"
    by (rule ext) (rule incomingCount_in_degree)
  then have "maxIncoming nodes edges = fold max (map (\<lambda>n. in_degree edges (gn_id n)) nodes) 1"
    by (simp only: maxIncoming_def)
  also have "\<dots> = max 1 (Max (insert 0 (set (map (\<lambda>n. in_degree edges (gn_id n)) nodes))))"
    by (rule fold_max_one)
  also have "\<dots> = max 1 (max_in_degree nodes edges)"
    by (simp only: max_in_degree_def set_map)
  finally show ?thesis .
qed

lemma maxOutgoing_spec: "maxOutgoing nodes edges = max 1 (max_out_degree nodes edges)"
proof -
  have "outgoingCount edges = (\<lambda>n. out_degree edges (gn_id n))"
    by (rule ext) (rule outgoingCount_out_degree)
  then have "maxOutgoing nodes edges = fold max (map (\<lambda>n. out_degree edges (gn_id n)) nodes) 1"
    by (simp only: maxOutgoing_def)
  also have "\<dots> = max 1 (Max (insert 0 (set (map (\<lambda>n. out_degree edges (gn_id n)) nodes))))"
    by (rule fold_max_one)
  also have "\<dots> = max 1 (max_out_degree nodes edges)"
    by (simp only: max_out_degree_def set_map)
  finally show ?thesis .
qed

lemma getNodeSize_Incoming:
  "getNodeSize to_number Incoming sprop nodes edges node
     = Num (5 + 15 * (real (in_degree edges (gn_id node))
                       / real (max 1 (max_in_degree nodes edges))))"
  by (simp add: getNodeSize_def provided_size_def property_size_def degree_size_def
      incomingCount_in_degree maxIncoming_spec)

lemma getNodeSize_Outgoing:
  "getNodeSize to_number Outgoing sprop nodes edges node
     = Num (5 + 15 * (real (out_degree edges (gn_id node))
                       / real (max 1 (max_out_degree nodes edges))))"
  by (simp add: getNodeSize_def provided_size_def property_size_def degree_size_def
      outgoingCount_out_degree maxOutgoing_spec)

lemma getNodeSize_simple_Incoming:
  "getNodeSize_simple to_number Incoming nodes edges node
     = Num (5 + 15 * (real (in_degree edges (gn_id node))
                       / real (max 1 (max_in_degree nodes edges))))"
  by (simp add: getNodeSize_simple_def provided_size_def degree_size_def
      incomingCount_in_degree maxIncoming_spec)

lemma getNodeSize_simple_Outgoing:
  "getNodeSize_simple to_number Outgoing nodes edges node
     = Num (5 + 15 * (real (out_degree edges (gn_id node))
                       / real (max 1 (max_out_degree nodes edges))))"
  by (simp add: getNodeSize_simple_def provided_size_def degree_size_def
      outgoingCount_out_degree maxOutgoing_spec)

text \<open>
  C8: in the incoming (outgoing) sizing mode the radius of a node is
  \<open>5 + 15 * (degree / max(1, maxDegreeInGraph))\<close>, the degree being the number of edges into
  (out of) the node and the maximum being taken over the nodes of the graph; this holds for
  \<open>getNodeSize\<close> of graph-view.tsx and of simple-drag-graph.tsx. So a node without incoming
  edges has radius 5, and a node whose incoming degree is the maximum of the graph, when
  that is not 0, has radius 20.
\<close>

theorem degree_radius:
  "getNodeSize to_number Incoming sprop nodes edges node
     = Num (5 + 15 * (real (in_degree edges (gn_id node))
                       / real (max 1 (max_in_degree nodes edges))))
   \<and> getNodeSize to_number Outgoing sprop nodes edges node
     = Num (5 + 15 * (real (out_degree edges (gn_id node))
                       / real (max 1 (max_out_degree nodes edges))))
   \<and> getNodeSize_simple to_number Incoming nodes edges node
     = Num (5 + 15 * (real (in_degree edges (gn_id node))
                       / real (max 1 (max_in_degree nodes edges))))
   \<and> getNodeSize_simple to_number Outgoing nodes edges node
     = Num (5 + 15 * (real (out_degree edges (gn_id node))
                       / real (max 1 (max_out_degree nodes edges))))
   \<and> (in_degree edges (gn_id node) = 0 \<longrightarrow>
        getNodeSize to_number Incoming sprop nodes edges node = Num 5)
   \<and> (0 < max_in_degree nodes edges
        \<and> in_degree edges (gn_id node) = max_in_degree nodes edges \<longrightarrow>
        getNodeSize to_number Incoming sprop nodes edges node = Num 20)"
  by (simp add: getNodeSize_Incoming getNodeSize_Outgoing getNodeSize_simple_Incoming
      getNodeSize_simple_Outgoing)

theorem degree_radius_witness:
  "in_degree (gv_edges example_view) (js ''A'') = 0
   \<and> getNodeSize (\<lambda>v. NaN) Incoming None (gv_nodes example_view) (gv_edges example_view)
        \<lparr>gn_id = js ''A'', gn_label = js ''A'', gn_x = Some 10, gn_y = Some 10,
         gn_color = None, gn_properties = None\<rparr> = Num 5
   \<and> in_degree (gv_edges example_view) (js ''B'') = 1
   \<and> max_in_degree (gv_nodes example_view) (gv_edges example_view) = 1
   \<and> getNodeSize (\<lambda>v. NaN) Incoming None (gv_nodes example_view) (gv_edges example_view)
        \<lparr>gn_id = js ''B'', gn_label = js ''B'', gn_x = Some 40, gn_y = Some 50,
         gn_color = None, gn_properties = None\<rparr> = Num 20"
proof -
  let ?A = "\<lparr>gn_id = js ''A'', gn_label = js ''A'', gn_x = Some 10, gn_y = Some 10,
         gn_color = None, gn_properties = None\<rparr>"
  let ?B = "\<lparr>gn_id = js ''B'', gn_label = js ''B'', gn_x = Some 40, gn_y = Some 50,
         gn_color = None, gn_properties = None\<rparr>"
  have a: "in_degree (gv_edges example_view) (gn_id ?A) = 0"
    unfolding incomingCount_in_degree [symmetric]
    by (simp add: incomingCount_def example_view_def js_def)
  have b: "in_degree (gv_edges example_view) (gn_id ?B) = 1"
    unfolding incomingCount_in_degree [symmetric]
    by (simp add: incomingCount_def example_view_def js_def)
  have "max_in_degree (gv_nodes example_view) (gv_edges example_view)
      = Max {in_degree (gv_edges example_view) (gn_id ?A),
             in_degree (gv_edges example_view) (gn_id ?B), 0}"
    by (simp add: max_in_degree_def example_view_def insert_commute)
  then have m: "max_in_degree (gv_nodes example_view) (gv_edges example_view) = 1"
    unfolding a b by simp
  show ?thesis
    using a b m
      degree_radius [where edges = "gv_edges example_view" and nodes = "gv_nodes example_view"
        and node = "?A" and to_number = "\<lambda>v. NaN" and sprop = None]
      degree_radius [where edges = "gv_edges example_view" and nodes = "gv_nodes example_view"
        and node = "?B" and to_number = "\<lambda>v. NaN" and sprop = None]
    by simp
qed

subsection \<open>Claim C9\<close>































section \<open>Properties of D3Graph\<close>






text \<open>The states of the examples, evaluated.\<close>

lemma mounted_A_B_value:
  "mounted_A_B =
     \<lparr>d3_nodes = [node_A, node_B], d3_edges = [edge_A_B], d3_onGraphUpdate = True,
      d3_first_edges = [edge_A_B], d3_first_onGraphUpdate = True,
      d3_svg = True, d3_container = Some (800, 600),
      d3_nodeObjects =
        [JObj [(js ''id'', JStr (js ''A'')), (js ''label'', JStr (js ''A'')),
               (js ''x'', JNum 10), (js ''y'', JNum 10), (js ''fx'', JNum 10), (js ''fy'', JNum 10)],
         JObj [(js ''id'', JStr (js ''B'')), (js ''label'', JStr (js ''B'')),
               (js ''x'', JNum 40), (js ''y'', JNum 50), (js ''fx'', JNum 40), (js ''fy'', JNum 50)]],
      d3_customGroupColors = JObj [],
      d3_isDragging = False, d3_currentNode = None,
      d3_random = (\<lambda>k. 0), d3_drawn = 0\<rparr>"
  by (simp add: mounted_A_B_def mount_def createGraph_def node_A_def node_B_def edge_A_B_def
      js_def spread_def)

lemma after_delete_B_value:
  "after_delete_B =
     \<lparr>d3_nodes = [node_A], d3_edges = [], d3_onGraphUpdate = True,
      d3_first_edges = [edge_A_B], d3_first_onGraphUpdate = True,
      d3_svg = True, d3_container = Some (800, 600),
      d3_nodeObjects =
        [JObj [(js ''id'', JStr (js ''A'')), (js ''label'', JStr (js ''A'')),
               (js ''x'', JNum 10), (js ''y'', JNum 10), (js ''fx'', JNum 10), (js ''fy'', JNum 10)]],
      d3_customGroupColors = JObj [],
      d3_isDragging = False, d3_currentNode = None,
      d3_random = (\<lambda>k. 0), d3_drawn = 0\<rparr>"
  by (simp add: after_delete_B_def render_def mounted_A_B_value createGraph_def node_A_def
      js_def spread_def)



subsection \<open>Claim C7\<close>

text \<open>
  C7: when the parsed file has no \<open>nodes\<close> array or no \<open>edges\<close> array (the field is missing or
  is not an array), \<open>importGraph\<close> leaves the state of the component as it is: nodes and
  group colors are unchanged and no update is notified, so no field of the file is applied.
  Its only effect is one alert, \<open>Invalid graph file format\<close> (or, when the file is the value
  \<open>null\<close>, the message of the TypeError that reading \<open>nodes\<close> raises).
\<close>

theorem import_rejects_unchanged:
  assumes "JSON_parse content = Inr graphState"
    and "\<not> isArray (member graphState (js ''nodes''))
         \<or> \<not> isArray (member graphState (js ''edges''))"
  shows "importGraph JSON_parse content st
           = (st, [Alert (if graphState = JNull
                          then import_failed (js ''Cannot read properties of null (reading 'nodes')'')
                          else js ''Invalid graph file format'')])"
  using assms by (cases graphState) (auto simp: importGraph_def)

theorem import_rejects_unchanged_witness:
  "\<not> isArray (member (JObj [(js ''nodes'', JArr []), (js ''edges'', JStr (js ''none''))]) (js ''edges''))
   \<and> importGraph (\<lambda>c. Inr (JObj [(js ''nodes'', JArr []), (js ''edges'', JStr (js ''none''))]))
         (js ''{...}'') mounted_A_B
     = (mounted_A_B, [Alert (js ''Invalid graph file format'')])"
  using import_rejects_unchanged
    [where JSON_parse = "\<lambda>c. Inr (JObj [(js ''nodes'', JArr []), (js ''edges'', JStr (js ''none''))])"
       and content = "js ''{...}''"
       and graphState = "JObj [(js ''nodes'', JArr []), (js ''edges'', JStr (js ''none''))]"
       and st = mounted_A_B]
  by (simp add: isArray_def js_def)


subsection \<open>Claim C1\<close>





text \<open>
  Outside these two cases the \<open>createGraph()\<close> that ends \<open>importGraph\<close> prepares the node
  objects again from the \<open>nodes\<close> prop of the current render, which the parent has not yet
  replaced. An example: the document is the component of \<open>A\<close> and \<open>B\<close> with \<open>A\<close> moved to
  \<open>(50, 50)\<close>; after its import into the component whose prop still has \<open>A\<close> at \<open>(10, 10)\<close>,
  the node objects are those of the prop.
\<close>

lemma import_overwritten_by_stale_props:
  "d3_nodeObjects
     (fst (importGraph
             (\<lambda>c. Inr (graphState_of
                (mounted_A_B\<lparr>d3_nodeObjects :=
                   [set_position 50 50 (hd (d3_nodeObjects mounted_A_B)),
                    d3_nodeObjects mounted_A_B ! 1]\<rparr>)))
             (js ''{...}'') mounted_A_B))
   = d3_nodeObjects mounted_A_B"
  by (simp add: importGraph_def graphState_of_def mounted_A_B_value createGraph_def
      node_A_def node_B_def edge_A_B_def falsy_def isArray_def elements_def js_def
      spread_def Let_def)

subsection \<open>Claim C6\<close>

text \<open>
  The pointer-up of \<open>D3Graph\<close>, after a pointer-down on a node that is found and any
  move: the node gets the position of its circle, the drag ends and, when the first render
  had an \<open>onGraphUpdate\<close>, one update is notified. It carries the node objects and the
  \<open>edges\<close> of the first render.
\<close>

lemma release_notifies_first_render:
  assumes "d3_svg st" and "truthy nodeId"
    and "findIndex_id nodeId (d3_nodeObjects st) 0 = Some (Some nodeIndex)"
    and "d3_first_onGraphUpdate st"
  shows "handleMouseUp_d3 (Some (x, y))
           (handleMouseMove_d3 clientX clientY (handleNodeMouseDown_d3 nodeId st))
         = (st\<lparr>d3_nodeObjects :=
                  (d3_nodeObjects st)
                    [nodeIndex := set_position x y (d3_nodeObjects st ! nodeIndex)],
                d3_isDragging := False, d3_currentNode := None\<rparr>,
            [GraphUpdate
               ((d3_nodeObjects st)
                  [nodeIndex := set_position x y (d3_nodeObjects st ! nodeIndex)])
               (d3_first_edges st)])"
  using assms
  by (simp add: handleMouseUp_d3_def handleMouseMove_d3_def handleNodeMouseDown_d3_def
      falsy_def Let_def)


text \<open>
  C6 fails in \<open>D3Graph\<close>, where the update of pointer-up does not carry the current edge
  collection once the \<open>edges\<close> prop has changed. The component is mounted with \<open>A\<close>, \<open>B\<close> and
  the edge from \<open>A\<close> to \<open>B\<close>, then rendered with \<open>A\<close> alone and no edge. A drag of \<open>A\<close> to
  \<open>(50, 50)\<close> notifies the parent of \<open>A\<close> at its new position and of the edge from \<open>A\<close> to
  \<open>B\<close>, which is no longer an edge of the graph.
\<close>

theorem release_notifies_stale_edges:
  "d3_edges after_delete_B = []
   \<and> snd (handleMouseUp_d3 (Some (50, 50))
            (handleMouseMove_d3 50 50
               (handleNodeMouseDown_d3 (JStr (js ''A'')) after_delete_B)))
     = [GraphUpdate
          [JObj [(js ''id'', JStr (js ''A'')), (js ''label'', JStr (js ''A'')),
                 (js ''x'', JNum 50), (js ''y'', JNum 50),
                 (js ''fx'', JNum 50), (js ''fy'', JNum 50)]]
          [JObj [(js ''from'', JStr (js ''A'')), (js ''to'', JStr (js ''B''))]]]"
  by (simp add: after_delete_B_value handleMouseUp_d3_def handleMouseMove_d3_def
      handleNodeMouseDown_d3_def falsy_def edge_A_B_def js_def Let_def)

theorem release_notifies_stale_edges_witness:
  "d3_isDragging (handleNodeMouseDown_d3 (JStr (js ''A'')) after_delete_B)
   \<and> d3_currentNode (handleNodeMouseDown_d3 (JStr (js ''A'')) after_delete_B)
       = Some (JStr (js ''A''))
   \<and> d3_svg after_delete_B
   \<and> d3_first_edges after_delete_B = [edge_A_B]
   \<and> d3_edges after_delete_B = []
   \<and> snd (handleMouseUp_d3 (Some (50, 50))
            (handleMouseMove_d3 50 50
               (handleNodeMouseDown_d3 (JStr (js ''A'')) after_delete_B)))
     = [GraphUpdate
          [JObj [(js ''id'', JStr (js ''A'')), (js ''label'', JStr (js ''A'')),
                 (js ''x'', JNum 50), (js ''y'', JNum 50),
                 (js ''fx'', JNum 50), (js ''fy'', JNum 50)]]
          [edge_A_B]]"
  using release_notifies_stale_edges
  by (simp add: after_delete_B_value handleNodeMouseDown_d3_def edge_A_B_def)

section \<open>Group colors\<close>

lemma fill_colorMap_other:
  "k \<notin> key_of ts ` set gs \<Longrightarrow> fill_colorMap ts custom (enumerate n gs) m k = m k"
  by (induction gs arbitrary: n m) (auto simp: fill_colorMap_def)

lemma fill_colorMap_Cons:
  "fill_colorMap ts custom (enumerate n (g # gs)) m
     = fill_colorMap ts custom (enumerate (Suc n) gs)
         (m(key_of ts g \<mapsto> color_entry custom (key_of ts g) n))"
  by (simp add: fill_colorMap_def)

lemma fill_colorMap_nth:
  "distinct (map (key_of ts) gs) \<Longrightarrow> i < length gs \<Longrightarrow>
     fill_colorMap ts custom (enumerate n gs) m (key_of ts (gs ! i))
       = Some (color_entry custom (key_of ts (gs ! i)) (n + i))"
proof (induction gs arbitrary: n m i)
  case Nil
  then show ?case by simp
next
  case (Cons g gs)
  show ?case
  proof (cases i)
    case 0
    have "key_of ts g \<notin> key_of ts ` set gs" using Cons.prems(1) by simp
    then have "fill_colorMap ts custom (enumerate (Suc n) gs)
         (m(key_of ts g \<mapsto> color_entry custom (key_of ts g) n)) (key_of ts g)
        = (m(key_of ts g \<mapsto> color_entry custom (key_of ts g) n)) (key_of ts g)"
      by (rule fill_colorMap_other)
    then show ?thesis
      unfolding fill_colorMap_Cons 0 by simp
  next
    case (Suc j)
    then have j: "j < length gs" using Cons.prems(2) by simp
    have dj: "distinct (map (key_of ts) gs)" using Cons.prems(1) by simp
    have "fill_colorMap ts custom (enumerate (Suc n) gs)
         (m(key_of ts g \<mapsto> color_entry custom (key_of ts g) n)) (key_of ts (gs ! j))
        = Some (color_entry custom (key_of ts (gs ! j)) (Suc n + j))"
      using dj j by (rule Cons.IH)
    then show ?thesis
      unfolding fill_colorMap_Cons Suc by simp
  qed
qed

lemma groups_set: "set (groups nodes) = groupKey ` set nodes"
  by (simp add: groups_def)

lemma groups_distinct: "distinct (groups nodes)"
  by (simp add: groups_def)

lemma key_of_string_group:
  assumes "string_groups nodes" and "n \<in> set nodes"
  shows "key_of ts (groupKey n) = group_name n \<and> groupKey n = JStr (group_name n)"
  using assms
  by (auto simp: string_groups_def list_all_iff key_of_def group_name_def split: jsval.splits)

lemma sorted_keys:
  assumes "string_groups nodes"
  shows "map (key_of ts) (sort_key (key_of ts) (groups nodes))
           = sorted_list_of_set (group_name ` set nodes)"
proof -
  let ?gs = "sort_key (key_of ts) (groups nodes)"
  have inj: "inj_on (key_of ts) (set (groups nodes))"
  proof (rule inj_onI)
    fix a b
    assume "a \<in> set (groups nodes)" "b \<in> set (groups nodes)" "key_of ts a = key_of ts b"
    then obtain n1 n2 where n: "n1 \<in> set nodes" "a = groupKey n1" "n2 \<in> set nodes" "b = groupKey n2"
      and eq: "key_of ts (groupKey n1) = key_of ts (groupKey n2)"
      by (auto simp: groups_set)
    have k1: "key_of ts (groupKey n1) = group_name n1" and g1: "groupKey n1 = JStr (group_name n1)"
      using key_of_string_group [OF assms n(1), of ts] by blast+
    have k2: "key_of ts (groupKey n2) = group_name n2" and g2: "groupKey n2 = JStr (group_name n2)"
      using key_of_string_group [OF assms n(3), of ts] by blast+
    have "group_name n1 = group_name n2"
      using eq unfolding k1 k2 .
    then show "a = b"
      unfolding n(2) n(4) using g1 g2 by simp
  qed
  have d: "distinct (map (key_of ts) ?gs)"
    using inj groups_distinct by (simp add: distinct_map)
  have s: "sorted (map (key_of ts) ?gs)"
    by (rule sorted_sort_key)
  have "set (map (key_of ts) ?gs) = key_of ts ` groupKey ` set nodes"
    by (simp add: groups_set)
  also have "\<dots> = (\<lambda>n. key_of ts (groupKey n)) ` set nodes"
    by (simp only: image_image)
  also have "\<dots> = group_name ` set nodes"
    by (rule image_cong) (simp_all add: key_of_string_group [OF assms] key_of_def)
  finally have e: "set (map (key_of ts) ?gs) = group_name ` set nodes" .
  show ?thesis
    using sorted_distinct_set_unique [OF s d, of "sorted_list_of_set (group_name ` set nodes)"] e
    by simp
qed

text \<open>
  \<open>colorScale\<close> of graph-view.tsx follows the sorted-key rule: when the groups of the nodes
  are strings, the group at index \<open>i\<close> of the sorted list of the distinct group names gets
  its custom color if it has one and else the palette color at \<open>i\<close> modulo 10.
\<close>

lemma colorScale_sorted_rule:
  assumes "string_groups nodes"
    and "i < length (sorted_list_of_set (group_name ` set nodes))"
  shows "colorScale ts custom nodes (sorted_list_of_set (group_name ` set nodes) ! i)
           = Some (color_entry custom (sorted_list_of_set (group_name ` set nodes) ! i) i)"
proof -
  let ?gs = "sort_key (key_of ts) (groups nodes)"
  have k: "map (key_of ts) ?gs = sorted_list_of_set (group_name ` set nodes)"
    using assms(1) by (rule sorted_keys)
  have "length ?gs = length (map (key_of ts) ?gs)" by simp
  then have len: "i < length ?gs"
    using assms(2) unfolding k by simp
  have d: "distinct (map (key_of ts) ?gs)"
    unfolding k by simp
  have "sorted_list_of_set (group_name ` set nodes) ! i = key_of ts (?gs ! i)"
    unfolding k [symmetric] using len by simp
  then show ?thesis
    using fill_colorMap_nth [OF d len, of custom 0 Map.empty]
    by (simp add: colorScale_def)
qed

lemma colorScale_palette:
  assumes "string_groups nodes"
    and "i < length (sorted_list_of_set (group_name ` set nodes))"
  shows "colorScale ts [] nodes (sorted_list_of_set (group_name ` set nodes) ! i)
           = Some (defaultColors ! (i mod 10))"
  using colorScale_sorted_rule [OF assms, of ts "[]"]
  by (simp add: color_entry_def defaultColors_def)

lemma colorScale_b_a:
  "colorScale ts [] nodes_b_a (js ''a'') = Some (defaultColors ! 0)
   \<and> colorScale ts [] nodes_b_a (js ''b'') = Some (defaultColors ! 1)"
  by (simp add: colorScale_def fill_colorMap_def groups_def groupKey_def prop_lookup_def
      nodes_b_a_def key_of_def color_entry_def js_def enumerate_eq_zip defaultColors_def)

subsection \<open>Claim C3\<close>

text \<open>
  C3 does not hold for \<open>colorScale\<close> of simple-drag-graph.tsx, which does not sort the
  groups: for two nodes whose groups are met in the order \<open>b\<close>, \<open>a\<close>, and no custom color,
  \<open>b\<close> gets the first color of the palette and \<open>a\<close> the second, where the claim gives the
  first to \<open>a\<close> and the second to \<open>b\<close>.
\<close>

theorem colorScale_simple_encounter_order:
  "colorScale_simple ts [] nodes_b_a (js ''b'') = Some (defaultColors ! 0)
   \<and> colorScale_simple ts [] nodes_b_a (js ''a'') = Some (defaultColors ! 1)
   \<and> defaultColors ! 0 = js ''#4285F4'' \<and> defaultColors ! 1 = js ''#EA4335''"
  by (simp add: colorScale_simple_def fill_colorMap_def groups_def groupKey_def prop_lookup_def
      nodes_b_a_def key_of_def color_entry_def js_def enumerate_eq_zip defaultColors_def)


end
